theory Spec2Isabelle
  imports Main
begin

section \<open>Values of the ingested document\<close>

text \<open>
  The import engine of the work-time tracker (class \<open>ImportService\<close>) reads a parsed JSON
  document. A JavaScript string is a sequence of UTF-16 code units and \<open>length\<close> counts code
  units, so a string is modelled as a list of code units; \<open>str\<close> writes an ASCII literal.
\<close>

type_synonym jstring = "nat list"

definition str :: "string \<Rightarrow> jstring" where
  "str s = map of_char s"

text \<open>
  A parsed JSON value, extended with \<open>undefined\<close> (the result of reading a missing
  property). Numbers are restricted to integers: the code only tests their type and
  truthiness, or hands them to the platform. An object is the list of its members.
  Where the code compares two values with \<open>===\<close>, or uses one as the key of a \<open>Map\<close> or a
  \<open>Set\<close>, the model compares the values. This is the code's comparison on strings,
  booleans, integers, \<open>null\<close> and \<open>undefined\<close>; two arrays or objects of equal content are
  equal in the model, while the code tells them apart unless they are one object.
\<close>

datatype json =
    JUndefined
  | JNull
  | JBool bool
  | JNum int
  | JStr jstring
  | JArr "json list"
  | JObj "(jstring \<times> json) list"

text \<open>\<open>!v\<close> is \<open>\<not> truthy v\<close>.\<close>

fun truthy :: "json \<Rightarrow> bool" where
  "truthy JUndefined = False"
| "truthy JNull = False"
| "truthy (JBool b) = b"
| "truthy (JNum n) = (n \<noteq> 0)"
| "truthy (JStr s) = (s \<noteq> [])"
| "truthy (JArr xs) = True"
| "truthy (JObj kvs) = True"

text \<open>\<open>typeof v === 'object'\<close> holds of \<open>null\<close>, of arrays and of objects.\<close>

fun typeof_object :: "json \<Rightarrow> bool" where
  "typeof_object JNull = True"
| "typeof_object (JArr xs) = True"
| "typeof_object (JObj kvs) = True"
| "typeof_object v = False"

fun is_string :: "json \<Rightarrow> bool" where
  "is_string (JStr s) = True"
| "is_string v = False"

fun is_array :: "json \<Rightarrow> bool" where
  "is_array (JArr xs) = True"
| "is_array v = False"

fun is_nullish :: "json \<Rightarrow> bool" where
  "is_nullish JUndefined = True"
| "is_nullish JNull = True"
| "is_nullish v = False"

text \<open>The values that are neither arrays nor objects.\<close>

fun is_primitive :: "json \<Rightarrow> bool" where
  "is_primitive (JArr xs) = False"
| "is_primitive (JObj kvs) = False"
| "is_primitive v = True"

fun elems :: "json \<Rightarrow> json list" where
  "elems (JArr xs) = xs"
| "elems v = []"

fun members :: "json \<Rightarrow> (jstring \<times> json) list" where
  "members (JObj kvs) = kvs"
| "members v = []"

text \<open>
  \<open>get v k\<close> is the property read \<open>v.k\<close> on a value that is neither \<open>null\<close> nor
  \<open>undefined\<close> (on those the read raises a TypeError, which every call site that can meet
  them models on its own). Only the member names \<open>orders\<close>, \<open>activities\<close>, \<open>id\<close>,
  \<open>name\<close>, \<open>orderId\<close>, \<open>createdAt\<close>, \<open>version\<close>, \<open>exportedAt\<close> and \<open>duplicateHandling\<close>
  are read this way;
  arrays, strings, numbers and booleans carry none of them. \<open>has_key v k\<close> is \<open>k in v\<close>
  on an object.
\<close>

definition get :: "json \<Rightarrow> jstring \<Rightarrow> json" where
  "get v k = (case map_of (members v) k of None \<Rightarrow> JUndefined | Some x \<Rightarrow> x)"

definition has_key :: "json \<Rightarrow> jstring \<Rightarrow> bool" where
  "has_key v k = (map_of (members v) k \<noteq> None)"

text \<open>
  \<open>String.prototype.trim\<close> removes the code units of WhiteSpace and LineTerminator from
  both ends.
\<close>

definition is_ws :: "nat \<Rightarrow> bool" where
  "is_ws c = (c \<in> {9, 10, 11, 12, 13, 32, 160, 5760, 8232, 8233, 8239, 8287, 12288, 65279}
              \<or> (8192 \<le> c \<and> c \<le> 8202))"

definition trim :: "jstring \<Rightarrow> jstring" where
  "trim s = rev (dropWhile is_ws (rev (dropWhile is_ws s)))"

text \<open>Decimal digits of an index, as a template literal prints it.\<close>

fun dec :: "nat \<Rightarrow> jstring" where
  "dec n = (if n < 10 then [48 + n] else dec (n div 10) @ [48 + n mod 10])"

declare dec.simps [simp del]


section \<open>The platform\<close>

text \<open>
  What the code takes from the JavaScript runtime rather than from the repository:
  \<^item> \<open>stringifyLength v\<close> is \<open>JSON.stringify(v).length\<close>;
  \<^item> \<open>dateTime v\<close> is \<open>new Date(v).getTime()\<close>, \<open>None\<close> for \<open>NaN\<close> (an invalid date);
  \<^item> \<open>fullYear t\<close> is \<open>getFullYear()\<close> of the date with time value \<open>t\<close>;
  \<^item> \<open>nowMs\<close> is the time value of \<open>new Date()\<close>, \<open>nowISO\<close> is
    \<open>new Date().toISOString()\<close>;
  \<^item> \<open>toLowerCase\<close> is \<open>String.prototype.toLowerCase\<close>;
  \<^item> \<open>toNumber v\<close> is the numeric conversion of a value that is not a number (\<open>None\<close> for
    \<open>NaN\<close>), and \<open>plusTimesOne a b\<close> is \<open>(a + b) * 1\<close> when \<open>a\<close> or \<open>b\<close> is not a
    number. Both are met only when a document carries an object with a member called
    \<open>length\<close> where an array or a string is expected.
\<close>

record platform =
  stringifyLength :: "json \<Rightarrow> nat"
  dateTime :: "json \<Rightarrow> int option"
  fullYear :: "int \<Rightarrow> int"
  nowMs :: int
  nowISO :: jstring
  toLowerCase :: "jstring \<Rightarrow> jstring"
  toNumber :: "json \<Rightarrow> int option"
  plusTimesOne :: "json \<Rightarrow> json \<Rightarrow> int option"

text \<open>
  \<open>length_member v\<close> is \<open>v.length\<close> for a value that is neither \<open>null\<close> nor
  \<open>undefined\<close>; \<open>exceeds P v n\<close> is the comparison \<open>v > n\<close> with a number \<open>n\<close>.
\<close>

fun length_member :: "json \<Rightarrow> json" where
  "length_member (JStr s) = JNum (int (length s))"
| "length_member (JArr xs) = JNum (int (length xs))"
| "length_member (JObj kvs) = get (JObj kvs) (str ''length'')"
| "length_member v = JUndefined"

fun exceeds :: "platform \<Rightarrow> json \<Rightarrow> int \<Rightarrow> bool" where
  "exceeds P (JNum k) n = (n < k)"
| "exceeds P JUndefined n = False"
| "exceeds P JNull n = (n < 0)"
| "exceeds P (JBool b) n = (n < (if b then 1 else 0))"
| "exceeds P v n = (case toNumber P v of None \<Rightarrow> False | Some k \<Rightarrow> n < k)"

section \<open>Errors and warnings\<close>

text \<open>
  Every message the validators push is one value of \<open>verror\<close> or \<open>vwarning\<close>; the
  constructor keeps what the message text interpolates (entity, index, field, ids).
  \<open>OrderAt i\<close> is the prefix of order \<open>i\<close>, \<open>NestedActivityAt i j\<close> of activity \<open>j\<close>
  embedded in order \<open>i\<close>, \<open>ActivityAt j\<close> of a top-level activity.
\<close>

datatype entity = EOrder | EActivity

datatype place = OrderAt nat | NestedActivityAt nat nat | ActivityAt nat

datatype verror =
    RootNullish
  | RootNotObject
  | RootIsArray
  | RootEmpty
  | MissingProperty jstring
  | PropertyNotArray jstring
  | NotAnObject place
  | MissingField place jstring
  | FieldWrongType place jstring
  | ActivitiesNotArray nat
  | VersionNotString
  | ExportedAtNotString
  | DataTooLarge
  | TooManyOrders
  | TooManyActivities
  | IdTooLong entity nat
  | NameTooLong entity nat
  | OrderIdTooLong nat
  | ConstraintException
  | InvalidStructure entity nat
  | IdInvalid entity nat
  | NameInvalid entity nat
  | CreatedAtInvalid entity nat
  | OrderIdInvalid nat
  | UnexpectedItemProperties entity nat "jstring list"
  | DuplicateOrderIds "json list"
  | DuplicateActivityIds "json list"
  | OrphanSummary nat
  | OrphanDetail json json json
  | IntegrityException

datatype vwarning =
    UnexpectedProperties "jstring list"
  | LargeData
  | ManyOrders
  | ManyActivities
  | VersionMismatch
  | VersionMissing
  | MemoryUsage
  | ProcessingTime
  | EmptyOrders nat
  | OrderNameDuplicate json nat nat
  | ActivityNameDuplicate json json nat nat
  | NameEmpty entity nat
  | IdEmpty entity nat
  | NameLong entity nat
  | DateUnusual entity nat

text \<open>The \<open>{isValid, errors, warnings}\<close> object every check returns.\<close>

record vresult =
  isValid :: bool
  errors :: "verror list"
  warnings :: "vwarning list"

section \<open>Structural validator\<close>

text \<open>\<open>validateRootStructure\<close>: the first failing test returns with its single error.\<close>

definition validateRootStructure :: "json \<Rightarrow> vresult" where
  "validateRootStructure data =
     (if is_nullish data then \<lparr>isValid = False, errors = [RootNullish], warnings = []\<rparr>
      else if \<not> typeof_object data then \<lparr>isValid = False, errors = [RootNotObject], warnings = []\<rparr>
      else if is_array data then \<lparr>isValid = False, errors = [RootIsArray], warnings = []\<rparr>
      else if members data = [] then \<lparr>isValid = False, errors = [RootEmpty], warnings = []\<rparr>
      else \<lparr>isValid = True, errors = [], warnings = []\<rparr>)"

text \<open>
  \<open>validateRequiredProperties\<close>: \<open>orders\<close> must be present and an array (the test for a
  \<open>null\<close> array after \<open>Array.isArray\<close> can never fire). Unknown top-level keys only set
  \<open>warnings\<close>.
\<close>

definition validateRequiredProperties :: "json \<Rightarrow> vresult" where
  "validateRequiredProperties data =
     (let es = (if \<not> has_key data (str ''orders'') then [MissingProperty (str ''orders'')]
                else if \<not> is_array (get data (str ''orders''))
                then [PropertyNotArray (str ''orders'')]
                else []);
          unexpected = filter (\<lambda>k. k \<notin> set [str ''orders'', str ''version'', str ''metadata'',
                                              str ''exportedAt'']) (map fst (members data))
      in \<lparr>isValid = (es = []), errors = es,
          warnings = (if unexpected \<noteq> [] then [UnexpectedProperties unexpected] else [])\<rparr>)"

text \<open>
  The required fields of a record: missing, or present with a type other than string.
\<close>

definition requiredFieldErrors :: "place \<Rightarrow> json \<Rightarrow> jstring list \<Rightarrow> verror list" where
  "requiredFieldErrors pl item fs =
     concat (map (\<lambda>f. if \<not> has_key item f then [MissingField pl f]
                       else if \<not> is_string (get item f) then [FieldWrongType pl f]
                       else []) fs)"

text \<open>
  \<open>validateActivitySchemaTypes\<close>: \<open>parent\<close> is \<open>Some i\<close> for an activity embedded in
  order \<open>i\<close> (a non-empty \<open>parentPrefix\<close>), \<open>None\<close> for the flat form.
\<close>

definition validateActivitySchemaTypes :: "json \<Rightarrow> nat \<Rightarrow> nat option \<Rightarrow> verror list" where
  "validateActivitySchemaTypes activity index parent =
     (let pl = (case parent of Some i \<Rightarrow> NestedActivityAt i index | None \<Rightarrow> ActivityAt index)
      in if \<not> truthy activity \<or> \<not> typeof_object activity \<or> is_array activity
         then [NotAnObject pl]
         else requiredFieldErrors pl activity
                (case parent of Some i \<Rightarrow> [str ''id'', str ''name'']
                 | None \<Rightarrow> [str ''id'', str ''name'', str ''orderId'', str ''createdAt'']))"

definition validateNestedOrderSchemaTypes :: "json \<Rightarrow> nat \<Rightarrow> verror list" where
  "validateNestedOrderSchemaTypes order index =
     (if \<not> truthy order \<or> \<not> typeof_object order \<or> is_array order
      then [NotAnObject (OrderAt index)]
      else requiredFieldErrors (OrderAt index) order [str ''id'', str ''name'']
           @ (if has_key order (str ''activities'')
              then (if \<not> is_array (get order (str ''activities''))
                    then [ActivitiesNotArray index]
                    else concat (map (\<lambda>(actIndex, activity).
                                        validateActivitySchemaTypes activity actIndex (Some index))
                                     (enumerate 0 (elems (get order (str ''activities''))))))
              else []))"

definition validateSchemaDataTypes :: "json \<Rightarrow> vresult" where
  "validateSchemaDataTypes data =
     (let es = (if truthy (get data (str ''orders'')) \<and> is_array (get data (str ''orders''))
                then concat (map (\<lambda>(index, order). validateNestedOrderSchemaTypes order index)
                                 (enumerate 0 (elems (get data (str ''orders'')))))
                else [])
             @ (if has_key data (str ''version'') \<and> \<not> is_string (get data (str ''version''))
                then [VersionNotString] else [])
             @ (if has_key data (str ''exportedAt'') \<and> \<not> is_string (get data (str ''exportedAt''))
                then [ExportedAtNotString] else [])
      in \<lparr>isValid = (es = []), errors = es, warnings = []\<rparr>)"


section \<open>Schema constraints\<close>

text \<open>
  \<open>validateStringConstraints\<close> reads \<open>order.id\<close> of every element of the two top-level
  arrays without testing the element first: a \<open>null\<close> element raises a TypeError, which
  is \<open>None\<close> here. The embedded activities of an order are not visited.
\<close>

definition lengthError :: "platform \<Rightarrow> json \<Rightarrow> int \<Rightarrow> verror \<Rightarrow> verror list" where
  "lengthError P v limit e =
     (if truthy v \<and> exceeds P (length_member v) limit then [e] else [])"

definition orderStringErrors :: "platform \<Rightarrow> nat \<Rightarrow> json \<Rightarrow> verror list" where
  "orderStringErrors P index order =
     lengthError P (get order (str ''id'')) 100 (IdTooLong EOrder index)
     @ lengthError P (get order (str ''name'')) 200 (NameTooLong EOrder index)"

definition activityStringErrors :: "platform \<Rightarrow> nat \<Rightarrow> json \<Rightarrow> verror list" where
  "activityStringErrors P index activity =
     lengthError P (get activity (str ''id'')) 100 (IdTooLong EActivity index)
     @ lengthError P (get activity (str ''name'')) 200 (NameTooLong EActivity index)
     @ lengthError P (get activity (str ''orderId'')) 100 (OrderIdTooLong index)"

text \<open>The elements of \<open>data.k\<close> when \<open>data.k && Array.isArray(data.k)\<close>, else none.\<close>

definition arrayMember :: "json \<Rightarrow> jstring \<Rightarrow> json list" where
  "arrayMember data k = (if truthy (get data k) \<and> is_array (get data k) then elems (get data k) else [])"

definition validateStringConstraints :: "platform \<Rightarrow> json \<Rightarrow> verror list option" where
  "validateStringConstraints P data =
     (let os = arrayMember data (str ''orders'');
          acts = arrayMember data (str ''activities'')
      in if list_ex is_nullish os \<or> list_ex is_nullish acts then None
         else Some (concat (map (\<lambda>(index, order). orderStringErrors P index order) (enumerate 0 os))
                    @ concat (map (\<lambda>(index, activity). activityStringErrors P index activity)
                                  (enumerate 0 acts))))"

text \<open>
  \<open>validateSchemaConstraints\<close>: size of the serialised document (10 MB, 5 MB), element
  counts (10000/1000 orders, 50000/5000 activities), then the string lengths. Its
  \<open>catch\<close> clause adds one error to those already pushed.
\<close>

definition countCheck :: "platform \<Rightarrow> json \<Rightarrow> int \<Rightarrow> int \<Rightarrow> verror \<Rightarrow> vwarning
                           \<Rightarrow> verror list \<times> vwarning list" where
  "countCheck P v hard soft e w =
     (if truthy v
      then (if exceeds P (length_member v) hard then ([e], [])
            else if exceeds P (length_member v) soft then ([], [w])
            else ([], []))
      else ([], []))"

definition validateSchemaConstraints :: "platform \<Rightarrow> json \<Rightarrow> vresult" where
  "validateSchemaConstraints P data =
     (let dataSize = stringifyLength P data;
          sz = (if dataSize > 10 * 1024 * 1024 then ([DataTooLarge], [])
                else if dataSize > 5 * 1024 * 1024 then ([], [LargeData])
                else ([], []));
          oc = countCheck P (get data (str ''orders'')) 10000 1000 TooManyOrders ManyOrders;
          ac = countCheck P (get data (str ''activities'')) 50000 5000 TooManyActivities ManyActivities;
          es = fst sz @ fst oc @ fst ac;
          ws = snd sz @ snd oc @ snd ac
      in case validateStringConstraints P data of
           None \<Rightarrow> \<lparr>isValid = False, errors = es @ [ConstraintException], warnings = ws\<rparr>
         | Some ses \<Rightarrow> \<lparr>isValid = (es @ ses = []), errors = es @ ses, warnings = ws\<rparr>)"

definition supportedVersion :: jstring where
  "supportedVersion = str ''1.0.0''"

definition validateSchemaVersion :: "json \<Rightarrow> vwarning list" where
  "validateSchemaVersion data =
     (if has_key data (str ''version'')
      then (if get data (str ''version'') \<noteq> JStr supportedVersion then [VersionMismatch] else [])
      else [VersionMissing])"

text \<open>
  \<open>estimateProcessingTime\<close> is \<open>(orderCount + activityCount) * 1\<close>, a millisecond per
  element; \<open>None\<close> is \<open>NaN\<close>.
\<close>

definition elementCount :: "json \<Rightarrow> json" where
  "elementCount v = (if truthy v then length_member v else JNum 0)"

definition estimateProcessingTime :: "platform \<Rightarrow> json \<Rightarrow> int option" where
  "estimateProcessingTime P data =
     (case (elementCount (get data (str ''orders'')), elementCount (get data (str ''activities''))) of
        (JNum a, JNum b) \<Rightarrow> Some (a + b)
      | (a, b) \<Rightarrow> plusTimesOne P a b)"

definition estimateMemoryUsage :: "platform \<Rightarrow> json \<Rightarrow> nat" where
  "estimateMemoryUsage P data = stringifyLength P data * 4"

definition generatePerformanceWarnings :: "platform \<Rightarrow> json \<Rightarrow> vwarning list" where
  "generatePerformanceWarnings P data =
     (if estimateMemoryUsage P data > 50 * 1024 * 1024 then [MemoryUsage] else [])
     @ (case estimateProcessingTime P data of
          None \<Rightarrow> []
        | Some t \<Rightarrow> if t > 10000 then [ProcessingTime] else [])"

text \<open>
  \<open>validateJSONSchema\<close>: an invalid root returns at once; otherwise the four checks all
  run and their errors accumulate. The warnings of \<open>validateRequiredProperties\<close> are
  never read. Nothing inside its \<open>try\<close> raises, so the \<open>catch\<close> clause has no branch here.
\<close>

definition validateJSONSchema :: "platform \<Rightarrow> json \<Rightarrow> vresult" where
  "validateJSONSchema P data =
     (let structureResult = validateRootStructure data
      in if \<not> isValid structureResult
         then \<lparr>isValid = False, errors = errors structureResult, warnings = []\<rparr>
         else
           (let propertiesResult = validateRequiredProperties data;
                dataTypesResult = validateSchemaDataTypes data;
                constraintsResult = validateSchemaConstraints P data
            in \<lparr>isValid = (isValid propertiesResult \<and> isValid dataTypesResult
                            \<and> isValid constraintsResult),
                errors = (if \<not> isValid propertiesResult then errors propertiesResult else [])
                         @ (if \<not> isValid dataTypesResult then errors dataTypesResult else [])
                         @ (if \<not> isValid constraintsResult then errors constraintsResult else []),
                warnings = warnings constraintsResult @ validateSchemaVersion data
                           @ generatePerformanceWarnings P data\<rparr>))"

section \<open>Schema normalizer\<close>

text \<open>The canonical flat records; their fields hold whatever value the document gave.\<close>

record flat_order =
  fo_id :: json
  fo_name :: json
  fo_createdAt :: json

record flat_activity =
  fa_id :: json
  fa_name :: json
  fa_orderId :: json
  fa_createdAt :: json

record flat_data =
  fd_orders :: "flat_order list"
  fd_activities :: "flat_activity list"

text \<open>\<open>a || b\<close>.\<close>

definition or_else :: "json \<Rightarrow> json \<Rightarrow> json" where
  "or_else a b = (if truthy a then a else b)"

text \<open>
  The default names are the literals \<open>U+30AA U+30FC U+30C0 U+30FC\<close> and
  \<open>U+30A2 U+30AF U+30C6 U+30A3 U+30D3 U+30C6 U+30A3\<close> followed by the index.
\<close>

definition orderLabel :: jstring where
  "orderLabel = [12458, 12540, 12480, 12540]"

definition activityLabel :: jstring where
  "activityLabel = [12450, 12463, 12486, 12451, 12499, 12486, 12451]"

definition flattenActivity :: "platform \<Rightarrow> json \<Rightarrow> nat \<Rightarrow> nat \<Rightarrow> json \<Rightarrow> flat_activity list" where
  "flattenActivity P parentId index actIndex activity =
     (if \<not> truthy activity \<or> \<not> typeof_object activity then []
      else [\<lparr>fa_id = or_else (get activity (str ''id''))
                         (JStr (str ''generated_activity_'' @ dec index @ str ''_'' @ dec actIndex)),
             fa_name = or_else (get activity (str ''name'')) (JStr (activityLabel @ dec actIndex)),
             fa_orderId = parentId,
             fa_createdAt = or_else (get activity (str ''createdAt'')) (JStr (nowISO P))\<rparr>])"

definition flattenOrder :: "platform \<Rightarrow> nat \<Rightarrow> json \<Rightarrow> flat_order list \<times> flat_activity list" where
  "flattenOrder P index order =
     (if \<not> truthy order \<or> \<not> typeof_object order then ([], [])
      else
        (let flatOrder = \<lparr>fo_id = or_else (get order (str ''id''))
                                     (JStr (str ''generated_order_'' @ dec index)),
                          fo_name = or_else (get order (str ''name'')) (JStr (orderLabel @ dec index)),
                          fo_createdAt = or_else (get order (str ''createdAt'')) (JStr (nowISO P))\<rparr>
         in ([flatOrder],
             concat (map (\<lambda>(actIndex, activity).
                            flattenActivity P (fo_id flatOrder) index actIndex activity)
                         (enumerate 0 (arrayMember order (str ''activities'')))))))"

text \<open>
  \<open>convertNestedToFlat\<close>: only \<open>nestedData.orders\<close> and the \<open>activities\<close> of each order
  are read. \<open>None\<close> is the TypeError of reading \<open>orders\<close> from \<open>null\<close> or \<open>undefined\<close>.
\<close>

definition convertNestedToFlat :: "platform \<Rightarrow> json \<Rightarrow> flat_data option" where
  "convertNestedToFlat P nestedData =
     (if is_nullish nestedData then None
      else if \<not> truthy (get nestedData (str ''orders'')) \<or> \<not> is_array (get nestedData (str ''orders''))
      then Some \<lparr>fd_orders = [], fd_activities = []\<rparr>
      else
        (let rs = map (\<lambda>(index, order). flattenOrder P index order)
                      (enumerate 0 (elems (get nestedData (str ''orders''))))
         in Some \<lparr>fd_orders = concat (map fst rs), fd_activities = concat (map snd rs)\<rparr>))"

text \<open>
  \<open>convertFlatToNested\<close> groups the activities in a \<open>Map\<close> keyed by \<open>orderId\<close> and gives
  each order the group stored under its id (\<open>[]\<close> when there is none). Its argument is a
  flat record set, so the tests that \<open>orders\<close> and \<open>activities\<close> are arrays always pass.
  Keys are compared as values, which is what \<open>Map\<close> does for strings, numbers, booleans,
  \<open>null\<close> and \<open>undefined\<close>.
\<close>

record nested_activity =
  na_id :: json
  na_name :: json
  na_createdAt :: json

record nested_order =
  no_id :: json
  no_name :: json
  no_createdAt :: json
  no_activities :: "nested_activity list"

definition stripActivity :: "flat_activity \<Rightarrow> nested_activity" where
  "stripActivity a = \<lparr>na_id = fa_id a, na_name = fa_name a, na_createdAt = fa_createdAt a\<rparr>"

definition groupActivity :: "flat_activity \<Rightarrow> (json \<rightharpoonup> nested_activity list)
                             \<Rightarrow> (json \<rightharpoonup> nested_activity list)" where
  "groupActivity a m =
     m(fa_orderId a \<mapsto> (case m (fa_orderId a) of None \<Rightarrow> [] | Some xs \<Rightarrow> xs) @ [stripActivity a])"

definition convertFlatToNested :: "flat_data \<Rightarrow> nested_order list" where
  "convertFlatToNested flatData =
     (let activitiesByOrder = fold groupActivity (fd_activities flatData) Map.empty
      in map (\<lambda>order. \<lparr>no_id = fo_id order, no_name = fo_name order,
                        no_createdAt = fo_createdAt order,
                        no_activities = (case activitiesByOrder (fo_id order) of
                                           None \<Rightarrow> [] | Some xs \<Rightarrow> xs)\<rparr>)
             (fd_orders flatData))"


section \<open>Type and constraint validator\<close>

text \<open>
  \<open>validateId\<close>, \<open>validateName\<close> and \<open>validateDateTime\<close>: anything that is not a
  non-empty string is refused; the length tests are on the trimmed string, and both limits
  are 100.
\<close>

definition is_control :: "nat \<Rightarrow> bool" where
  "is_control c = (c \<le> 31 \<or> c = 127)"

fun validateId :: "json \<Rightarrow> bool" where
  "validateId (JStr s) =
     (if s = [] then False
      else if length (trim s) = 0 then False
      else if length (trim s) > 100 then False
      else if list_ex is_control (trim s) then False
      else True)"
| "validateId v = False"

fun validateName :: "json \<Rightarrow> bool" where
  "validateName (JStr s) =
     (if s = [] then False
      else if length (trim s) = 0 then False
      else if length (trim s) > 100 then False
      else True)"
| "validateName v = False"

fun validateDateTime :: "platform \<Rightarrow> json \<Rightarrow> bool" where
  "validateDateTime P (JStr s) =
     (if s = [] then False
      else case dateTime P (JStr s) of
             None \<Rightarrow> False
           | Some t \<Rightarrow> if fullYear P t < 1900 \<or> fullYear P t > 2100 then False else True)"
| "validateDateTime P v = False"

text \<open>
  \<open>validateDataTypes(item, type, index)\<close> collects every violation of one record.
\<close>

definition expectedProperties :: "entity \<Rightarrow> jstring list" where
  "expectedProperties ty =
     (case ty of EOrder \<Rightarrow> [str ''id'', str ''name'', str ''createdAt'']
      | EActivity \<Rightarrow> [str ''id'', str ''name'', str ''orderId'', str ''createdAt''])"

definition validateDataTypes :: "platform \<Rightarrow> json \<Rightarrow> entity \<Rightarrow> nat \<Rightarrow> verror list" where
  "validateDataTypes P item ty index =
     (if \<not> truthy item \<or> \<not> typeof_object item \<or> is_array item then [InvalidStructure ty index]
      else
        (if \<not> validateId (get item (str ''id'')) then [IdInvalid ty index] else [])
        @ (if \<not> validateName (get item (str ''name'')) then [NameInvalid ty index] else [])
        @ (if \<not> validateDateTime P (get item (str ''createdAt'')) then [CreatedAtInvalid ty index]
           else [])
        @ (if ty = EActivity
           then (if \<not> validateId (get item (str ''orderId'')) then [OrderIdInvalid index] else [])
           else [])
        @ (let unexpected = filter (\<lambda>k. k \<notin> set (expectedProperties ty)) (map fst (members item))
           in if unexpected \<noteq> [] then [UnexpectedItemProperties ty index unexpected] else []))"

text \<open>The object literals the normalizer builds, as the validators receive them.\<close>

definition order_json :: "flat_order \<Rightarrow> json" where
  "order_json order =
     JObj [(str ''id'', fo_id order), (str ''name'', fo_name order),
           (str ''createdAt'', fo_createdAt order)]"

definition activity_json :: "flat_activity \<Rightarrow> json" where
  "activity_json activity =
     JObj [(str ''id'', fa_id activity), (str ''name'', fa_name activity),
           (str ''orderId'', fa_orderId activity), (str ''createdAt'', fa_createdAt activity)]"

section \<open>Relationship and integrity analyzer\<close>

subsection \<open>Duplicate ids\<close>

record order_duplicate =
  dup_id :: json
  dup_indices :: "nat \<times> nat"
  dup_names :: "json \<times> json"

record activity_duplicate = order_duplicate +
  dup_orderIds :: "json \<times> json"

record duplicate_analysis = vresult +
  orderIds :: "order_duplicate list"
  activityIds :: "activity_duplicate list"

text \<open>
  One pass per entity type with a \<open>Map\<close> from id to the index that first carried it. The
  stored index is the index of an earlier element, so \<open>orders[existingIndex]\<close> is in range.
\<close>

definition noteOrderId :: "flat_order list \<Rightarrow> nat \<times> flat_order
                           \<Rightarrow> (json \<rightharpoonup> nat) \<times> order_duplicate list
                           \<Rightarrow> (json \<rightharpoonup> nat) \<times> order_duplicate list" where
  "noteOrderId orders = (\<lambda>(index, order) (orderIdMap, dups).
     case orderIdMap (fo_id order) of
       Some existingIndex \<Rightarrow>
         (orderIdMap,
          dups @ [\<lparr>dup_id = fo_id order, dup_indices = (existingIndex, index),
                   dup_names = (fo_name (orders ! existingIndex), fo_name order)\<rparr>])
     | None \<Rightarrow> (orderIdMap(fo_id order \<mapsto> index), dups))"

definition noteActivityId :: "flat_activity list \<Rightarrow> nat \<times> flat_activity
                              \<Rightarrow> (json \<rightharpoonup> nat) \<times> activity_duplicate list
                              \<Rightarrow> (json \<rightharpoonup> nat) \<times> activity_duplicate list" where
  "noteActivityId activities = (\<lambda>(index, activity) (activityIdMap, dups).
     case activityIdMap (fa_id activity) of
       Some existingIndex \<Rightarrow>
         (activityIdMap,
          dups @ [\<lparr>dup_id = fa_id activity, dup_indices = (existingIndex, index),
                   dup_names = (fa_name (activities ! existingIndex), fa_name activity),
                   dup_orderIds = (fa_orderId (activities ! existingIndex), fa_orderId activity)\<rparr>])
     | None \<Rightarrow> (activityIdMap(fa_id activity \<mapsto> index), dups))"

definition analyzeIdDuplicates :: "flat_order list \<Rightarrow> flat_activity list \<Rightarrow> duplicate_analysis" where
  "analyzeIdDuplicates orders activities =
     (let ods = snd (fold (noteOrderId orders) (enumerate 0 orders) (Map.empty, []));
          ads = snd (fold (noteActivityId activities) (enumerate 0 activities) (Map.empty, []))
      in \<lparr>isValid = (ods = [] \<and> ads = []),
          errors = (if length ods > 0 then [DuplicateOrderIds (map dup_id ods)] else [])
                   @ (if length ads > 0 then [DuplicateActivityIds (map dup_id ads)] else []),
          warnings = [],
          orderIds = ods, activityIds = ads\<rparr>)"

subsection \<open>Relationships\<close>

record orphaned_activity =
  orph_index :: nat
  orph_activityId :: json
  orph_activityName :: json
  orph_missingOrderId :: json

record relationship_analysis = vresult +
  rel_orphanedActivities :: "orphaned_activity list"
  totalRelationships :: nat
  validRelationships :: nat
  invalidRelationships :: nat
  orderActivityCounts :: "json \<rightharpoonup> nat"

text \<open>
  The three branches of the loop body: an empty \<open>orderId\<close> only counts as an invalid
  relationship; an \<open>orderId\<close> outside the batch's order ids is recorded as orphaned and
  invalidates the result; any other is a valid relationship.

  \<open>validOrderIds.has(activity.orderId)\<close> is membership by value. For an \<open>orderId\<close> that
  is a string, a number, a boolean, \<open>null\<close> or \<open>undefined\<close> this is what \<open>Set\<close> computes
  (\<open>is_primitive\<close>); the properties of the relationship analysis are stated for such
  \<open>orderId\<close>s only. For an array or an object \<open>Set\<close> asks for the same object, which a
  value does not tell; an unmatched value is unmatched as an object too.
\<close>

definition relationStep :: "json set \<Rightarrow> nat \<times> flat_activity
                            \<Rightarrow> relationship_analysis \<Rightarrow> relationship_analysis" where
  "relationStep validOrderIds = (\<lambda>(index, activity) r.
     if \<not> truthy (fa_orderId activity)
     then r\<lparr>invalidRelationships := invalidRelationships r + 1\<rparr>
     else if fa_orderId activity \<notin> validOrderIds
     then r\<lparr>rel_orphanedActivities := rel_orphanedActivities r
                 @ [\<lparr>orph_index = index, orph_activityId = fa_id activity,
                      orph_activityName = fa_name activity,
                      orph_missingOrderId = fa_orderId activity\<rparr>],
             invalidRelationships := invalidRelationships r + 1,
             isValid := False\<rparr>
     else r\<lparr>validRelationships := validRelationships r + 1,
             orderActivityCounts := (orderActivityCounts r)
               (fa_orderId activity \<mapsto>
                  (case orderActivityCounts r (fa_orderId activity) of None \<Rightarrow> 0 | Some c \<Rightarrow> c) + 1)\<rparr>)"

definition analyzeRelationships :: "flat_order list \<Rightarrow> flat_activity list \<Rightarrow> relationship_analysis" where
  "analyzeRelationships orders activities =
     (let validOrderIds = set (map fo_id orders);
          init = \<lparr>isValid = True, errors = [], warnings = [],
                  rel_orphanedActivities = [],
                  totalRelationships = length activities,
                  validRelationships = 0, invalidRelationships = 0,
                  orderActivityCounts = fold (\<lambda>order m. m(fo_id order \<mapsto> 0)) orders Map.empty\<rparr>;
          r = fold (relationStep validOrderIds) (enumerate 0 activities) init;
          orphans = rel_orphanedActivities r;
          emptyOrders = filter (\<lambda>orderId. orderActivityCounts r orderId = Some 0)
                               (remdups (map fo_id orders))
      in r\<lparr>errors := (if length orphans > 0
                       then OrphanSummary (length orphans)
                            # map (\<lambda>orphaned. OrphanDetail (orph_activityName orphaned)
                                     (orph_activityId orphaned) (orph_missingOrderId orphaned))
                                  orphans
                       else []),
           warnings := (if length emptyOrders > 0 then [EmptyOrders (length emptyOrders)] else [])\<rparr>)"

subsection \<open>Name duplicates and data quality\<close>

fun the_string :: "json \<Rightarrow> jstring" where
  "the_string (JStr s) = s"
| "the_string v = []"

text \<open>
  \<open>analyzeNameDuplicates\<close> calls \<open>name.trim()\<close> on every record: a name that is not a
  string raises a TypeError (\<open>None\<close>). The per-order \<open>Map\<close> of activity names is a map
  on pairs of \<open>orderId\<close> and normalized name.
\<close>

definition noteOrderName :: "platform \<Rightarrow> nat \<times> flat_order \<Rightarrow> (jstring \<rightharpoonup> nat) \<times> vwarning list
                             \<Rightarrow> (jstring \<rightharpoonup> nat) \<times> vwarning list" where
  "noteOrderName P = (\<lambda>(index, order) (orderNameMap, ws).
     let normalizedName = toLowerCase P (trim (the_string (fo_name order)))
     in case orderNameMap normalizedName of
          Some existingIndex \<Rightarrow> (orderNameMap, ws @ [OrderNameDuplicate (fo_name order) existingIndex index])
        | None \<Rightarrow> (orderNameMap(normalizedName \<mapsto> index), ws))"

definition noteActivityName :: "platform \<Rightarrow> nat \<times> flat_activity
                                \<Rightarrow> (json \<times> jstring \<rightharpoonup> nat) \<times> vwarning list
                                \<Rightarrow> (json \<times> jstring \<rightharpoonup> nat) \<times> vwarning list" where
  "noteActivityName P = (\<lambda>(index, activity) (activityNamesByOrder, ws).
     let normalizedName = toLowerCase P (trim (the_string (fa_name activity)));
         key = (fa_orderId activity, normalizedName)
     in case activityNamesByOrder key of
          Some existingIndex \<Rightarrow>
            (activityNamesByOrder,
             ws @ [ActivityNameDuplicate (fa_orderId activity) (fa_name activity) existingIndex index])
        | None \<Rightarrow> (activityNamesByOrder(key \<mapsto> index), ws))"

definition analyzeNameDuplicates :: "platform \<Rightarrow> flat_order list \<Rightarrow> flat_activity list
                                     \<Rightarrow> vwarning list option" where
  "analyzeNameDuplicates P orders activities =
     (if list_ex (\<lambda>order. \<not> is_string (fo_name order)) orders
         \<or> list_ex (\<lambda>activity. \<not> is_string (fa_name activity)) activities
      then None
      else Some (snd (fold (noteOrderName P) (enumerate 0 orders) (Map.empty, []))
                 @ snd (fold (noteActivityName P) (enumerate 0 activities) (Map.empty, []))))"

text \<open>
  \<open>analyzeDataQuality\<close>: \<open>!v || v.trim().length === 0\<close> raises a TypeError on a truthy
  value that is not a string (\<open>None\<close>). Then names longer than 50 code units, then dates
  before 2000-01-01 (time value 946684800000) or more than 365 days ahead of now.
\<close>

definition trimRaises :: "json \<Rightarrow> bool" where
  "trimRaises v = (truthy v \<and> \<not> is_string v)"

definition blank :: "json \<Rightarrow> bool" where
  "blank v = (\<not> truthy v \<or> length (trim (the_string v)) = 0)"

definition unusualDate :: "platform \<Rightarrow> json \<Rightarrow> bool" where
  "unusualDate P createdAt =
     (truthy createdAt \<and>
      (case dateTime P createdAt of
         None \<Rightarrow> False
       | Some t \<Rightarrow> t < 946684800000 \<or> t > nowMs P + 365 * 24 * 60 * 60 * 1000))"

definition longName :: "platform \<Rightarrow> json \<Rightarrow> bool" where
  "longName P name = (truthy name \<and> exceeds P (length_member name) 50)"

definition analyzeDataQuality :: "platform \<Rightarrow> flat_order list \<Rightarrow> flat_activity list
                                  \<Rightarrow> vwarning list option" where
  "analyzeDataQuality P orders activities =
     (if list_ex (\<lambda>order. trimRaises (fo_name order) \<or> trimRaises (fo_id order)) orders
         \<or> list_ex (\<lambda>activity. trimRaises (fa_name activity) \<or> trimRaises (fa_id activity)) activities
      then None
      else Some
        (concat (map (\<lambda>(index, order).
                        (if blank (fo_name order) then [NameEmpty EOrder index] else [])
                        @ (if blank (fo_id order) then [IdEmpty EOrder index] else []))
                     (enumerate 0 orders))
         @ concat (map (\<lambda>(index, activity).
                          (if blank (fa_name activity) then [NameEmpty EActivity index] else [])
                          @ (if blank (fa_id activity) then [IdEmpty EActivity index] else []))
                       (enumerate 0 activities))
         @ concat (map (\<lambda>(index, order).
                          if longName P (fo_name order) then [NameLong EOrder index] else [])
                       (enumerate 0 orders))
         @ concat (map (\<lambda>(index, activity).
                          if longName P (fa_name activity) then [NameLong EActivity index] else [])
                       (enumerate 0 activities))
         @ concat (map (\<lambda>(index, order).
                          if unusualDate P (fo_createdAt order) then [DateUnusual EOrder index] else [])
                       (enumerate 0 orders))
         @ concat (map (\<lambda>(index, activity).
                          if unusualDate P (fa_createdAt activity) then [DateUnusual EActivity index]
                          else [])
                       (enumerate 0 activities))))"

subsection \<open>Integrity score and aggregation\<close>

record integrity_result = vresult +
  orphanedActivities :: "orphaned_activity list"
  duplicateAnalysis :: duplicate_analysis
  integrityScore :: int

text \<open>
  \<open>calculateIntegrityScore\<close>, statement by statement. \<open>duplicateAnalysis\<close> is always an
  object in the result it is called on.
\<close>

definition calculateIntegrityScore :: "integrity_result \<Rightarrow> int" where
  "calculateIntegrityScore integrityResult =
     (let score = 100;
          score = score - int (length (errors integrityResult)) * 10;
          score = score - int (length (warnings integrityResult)) * 2;
          score = score - int (length (orphanedActivities integrityResult)) * 5;
          score = score - int (length (orderIds (duplicateAnalysis integrityResult))) * 8;
          score = score - int (length (activityIds (duplicateAnalysis integrityResult))) * 8
      in max 0 (min 100 score))"

text \<open>
  \<open>validateDataIntegrity\<close>: the sub-checks run in order inside one \<open>try\<close>. When a
  TypeError is raised, what was stored before stays, the \<open>catch\<close> clause invalidates the
  result and adds one error, and the score keeps its initial value 0.
  \<open>checkCircularReferences\<close> always returns a valid, empty result; the fields
  \<open>relationshipAnalysis\<close>, \<open>circularReferences\<close> and \<open>statistics\<close>, which no validator reads,
  are left out.
\<close>

definition caught :: "integrity_result \<Rightarrow> integrity_result" where
  "caught r = r\<lparr>isValid := False, errors := errors r @ [IntegrityException]\<rparr>"

definition validateDataIntegrity :: "platform \<Rightarrow> flat_order list \<Rightarrow> flat_activity list
                                     \<Rightarrow> integrity_result" where
  "validateDataIntegrity P orders activities =
     (let idDuplicateResult = analyzeIdDuplicates orders activities;
          relationshipResult = analyzeRelationships orders activities;
          r = \<lparr>isValid = (isValid idDuplicateResult \<and> isValid relationshipResult),
               errors = (if \<not> isValid idDuplicateResult then errors idDuplicateResult else [])
                        @ (if \<not> isValid relationshipResult then errors relationshipResult else []),
               warnings = [],
               orphanedActivities = rel_orphanedActivities relationshipResult,
               duplicateAnalysis = idDuplicateResult,
               integrityScore = 0\<rparr>
      in case analyzeNameDuplicates P orders activities of
           None \<Rightarrow> caught r
         | Some nameWarnings \<Rightarrow>
             (case analyzeDataQuality P orders activities of
                None \<Rightarrow> caught (r\<lparr>warnings := nameWarnings\<rparr>)
              | Some qualityWarnings \<Rightarrow>
                  (let r' = r\<lparr>warnings := nameWarnings @ qualityWarnings\<rparr>
                   in r'\<lparr>integrityScore := calculateIntegrityScore r'\<rparr>)))"

section \<open>The validation pipeline\<close>

record validation_result = vresult +
  flattenedData :: "flat_data option"

text \<open>
  \<open>validateImportData\<close>: an invalid schema result returns before the normalizer, the
  type validator and the integrity analyzer run, and the result then has no
  \<open>flattenedData\<close>. \<open>None\<close> is the TypeError the normalizer would raise.
\<close>

definition validateImportData :: "platform \<Rightarrow> json \<Rightarrow> validation_result option" where
  "validateImportData P data =
     (let schemaResult = validateJSONSchema P data
      in if \<not> isValid schemaResult
         then Some \<lparr>isValid = False, errors = errors schemaResult, warnings = warnings schemaResult,
                    flattenedData = None\<rparr>
         else
           (case convertNestedToFlat P data of
              None \<Rightarrow> None
            | Some flattened \<Rightarrow>
                (let orderErrors = concat (map (\<lambda>(index, order).
                                         validateDataTypes P (order_json order) EOrder index)
                                       (enumerate 0 (fd_orders flattened)));
                     activityErrors = concat (map (\<lambda>(index, activity).
                                         validateDataTypes P (activity_json activity) EActivity index)
                                       (enumerate 0 (fd_activities flattened)));
                     integrityResult = validateDataIntegrity P (fd_orders flattened)
                                         (fd_activities flattened);
                     es = orderErrors @ activityErrors
                          @ (if \<not> isValid integrityResult then errors integrityResult else [])
                 in Some \<lparr>isValid = (length es = 0), errors = es,
                          warnings = warnings schemaResult @ warnings integrityResult,
                          flattenedData = Some flattened\<rparr>)))"


section \<open>The persisted store\<close>

text \<open>
  Reconciliation runs on a batch that passed \<open>validateImportData\<close>, where \<open>id\<close>, \<open>name\<close>,
  \<open>orderId\<close> and \<open>createdAt\<close> are non-empty strings, against the records of
  \<open>DataRepository.data\<close> (classes \<open>Order\<close> and \<open>Activity\<close> of the models: every field a
  string). Both are typed records here.
\<close>

record order =
  o_id :: jstring
  o_name :: jstring
  o_createdAt :: jstring

record activity =
  a_id :: jstring
  a_name :: jstring
  a_orderId :: jstring
  a_createdAt :: jstring

record store =
  st_orders :: "order list"
  st_activities :: "activity list"

record batch =
  b_orders :: "order list"
  b_activities :: "activity list"

text \<open>
  \<open>updateOrder(id, updates)\<close> and \<open>updateActivity(id, updates)\<close> of the repository:
  the first record with that id gets the fields of \<open>updates\<close>; with no such record the
  store is left as it is and \<open>null\<close> is returned. \<open>save()\<close> catches its own failures.
\<close>

fun update_first :: "('a \<Rightarrow> bool) \<Rightarrow> ('a \<Rightarrow> 'a) \<Rightarrow> 'a list \<Rightarrow> 'a list" where
  "update_first p f [] = []"
| "update_first p f (x # xs) = (if p x then f x # xs else x # update_first p f xs)"

definition updateOrder :: "store \<Rightarrow> jstring \<Rightarrow> jstring \<times> jstring \<Rightarrow> store" where
  "updateOrder st ident updates =
     st\<lparr>st_orders := update_first (\<lambda>order. o_id order = ident)
                         (\<lambda>order. order\<lparr>o_name := fst updates, o_createdAt := snd updates\<rparr>)
                         (st_orders st)\<rparr>"

definition updateActivity :: "store \<Rightarrow> jstring \<Rightarrow> jstring \<times> jstring \<times> jstring \<Rightarrow> store" where
  "updateActivity st ident updates =
     st\<lparr>st_activities := update_first (\<lambda>activity. a_id activity = ident)
                             (\<lambda>activity. activity\<lparr>a_name := fst updates,
                                                    a_orderId := fst (snd updates),
                                                    a_createdAt := snd (snd updates)\<rparr>)
                             (st_activities st)\<rparr>"

text \<open>\<open>Order.isValid\<close> and \<open>Activity.isValid\<close> on string fields.\<close>

definition order_isValid :: "platform \<Rightarrow> order \<Rightarrow> bool" where
  "order_isValid P order =
     (o_id order \<noteq> [] \<and> o_name order \<noteq> [] \<and> length (trim (o_name order)) > 0
      \<and> o_createdAt order \<noteq> [] \<and> dateTime P (JStr (o_createdAt order)) \<noteq> None)"

definition activity_isValid :: "platform \<Rightarrow> activity \<Rightarrow> bool" where
  "activity_isValid P activity =
     (a_id activity \<noteq> [] \<and> a_name activity \<noteq> [] \<and> length (trim (a_name activity)) > 0
      \<and> a_orderId activity \<noteq> []
      \<and> a_createdAt activity \<noteq> [] \<and> dateTime P (JStr (a_createdAt activity)) \<noteq> None)"

section \<open>Duplicate-versus-store detector\<close>

datatype match_type = MatchId | MatchName

record 'r duplicate =
  dup_import :: 'r
  dup_existing :: 'r
  dup_type :: match_type

record duplicate_check =
  hasDuplicates :: bool
  duplicateOrders :: "order duplicate list"
  duplicateActivities :: "activity duplicate list"

text \<open>
  \<open>checkDuplicates\<close>: for each import record the first store record, in store order, with
  the same id or the same name (for activities: the same id, or the same orderId and name).
\<close>

definition orderDuplicate :: "order list \<Rightarrow> order \<Rightarrow> order duplicate list" where
  "orderDuplicate existingOrders importOrder =
     (case find (\<lambda>order. o_id order = o_id importOrder \<or> o_name order = o_name importOrder)
                existingOrders of
        None \<Rightarrow> []
      | Some existing \<Rightarrow>
          [\<lparr>dup_import = importOrder, dup_existing = existing,
            dup_type = (if o_id existing = o_id importOrder then MatchId else MatchName)\<rparr>])"

definition activityDuplicate :: "activity list \<Rightarrow> activity \<Rightarrow> activity duplicate list" where
  "activityDuplicate existingActivities importActivity =
     (case find (\<lambda>activity. a_id activity = a_id importActivity
                             \<or> (a_orderId activity = a_orderId importActivity
                                \<and> a_name activity = a_name importActivity))
                existingActivities of
        None \<Rightarrow> []
      | Some existing \<Rightarrow>
          [\<lparr>dup_import = importActivity, dup_existing = existing,
            dup_type = (if a_id existing = a_id importActivity then MatchId else MatchName)\<rparr>])"

definition checkDuplicates :: "store \<Rightarrow> batch \<Rightarrow> duplicate_check" where
  "checkDuplicates st importData =
     (let dos = concat (map (orderDuplicate (st_orders st)) (b_orders importData));
          das = concat (map (activityDuplicate (st_activities st)) (b_activities importData))
      in \<lparr>hasDuplicates = (length dos > 0 \<or> length das > 0),
          duplicateOrders = dos, duplicateActivities = das\<rparr>)"

section \<open>Reconciliation executor\<close>

datatype import_error =
    OrderCreateFailed jstring
  | OrderImportFailed jstring
  | ActivityCreateFailed jstring
  | ActivityImportFailed jstring
  | SaveFailed
  | ExecutionFailed

record import_result =
  created :: nat
  skipped :: nat
  updated :: nat
  import_errors :: "import_error list"

text \<open>
  \<open>createOrderForImport\<close> and \<open>createActivityForImport\<close> return whether the record was
  added; the new record carries the trimmed name.
\<close>

definition createOrderForImport :: "platform \<Rightarrow> store \<Rightarrow> order \<Rightarrow> store \<times> bool" where
  "createOrderForImport P st orderData =
     (if o_name orderData = [] \<or> length (trim (o_name orderData)) = 0 then (st, False)
      else if find (\<lambda>order. o_id order = o_id orderData) (st_orders st) \<noteq> None then (st, False)
      else
        (let order = \<lparr>o_id = o_id orderData, o_name = trim (o_name orderData),
                      o_createdAt = o_createdAt orderData\<rparr>
         in if \<not> order_isValid P order then (st, False)
            else (st\<lparr>st_orders := st_orders st @ [order]\<rparr>, True)))"

definition createActivityForImport :: "platform \<Rightarrow> store \<Rightarrow> activity \<Rightarrow> store \<times> bool" where
  "createActivityForImport P st activityData =
     (if a_name activityData = [] \<or> length (trim (a_name activityData)) = 0 then (st, False)
      else if a_orderId activityData = [] then (st, False)
      else if find (\<lambda>order. o_id order = a_orderId activityData) (st_orders st) = None
      then (st, False)
      else if find (\<lambda>activity. a_id activity = a_id activityData) (st_activities st) \<noteq> None
      then (st, False)
      else
        (let activity = \<lparr>a_id = a_id activityData, a_name = trim (a_name activityData),
                         a_orderId = a_orderId activityData,
                         a_createdAt = a_createdAt activityData\<rparr>
         in if \<not> activity_isValid P activity then (st, False)
            else (st\<lparr>st_activities := st_activities st @ [activity]\<rparr>, True)))"

text \<open>
  The body of the loop of \<open>importOrders\<close>. \<open>duplicateHandling\<close> is the value the
  \<open>switch\<close> compares with the literals \<open>'overwrite'\<close> and \<open>'merge'\<close>; \<open>'skip'\<close> and the
  default share a branch. Under \<open>'merge'\<close> the update carries the fields of
  \<open>duplicate.existing\<close>; were no duplicate entry found, reading \<open>existing\<close> would raise and
  the \<open>catch\<close> of the loop body would record the failure.
\<close>

definition importOrder :: "platform \<Rightarrow> order duplicate list \<Rightarrow> json \<Rightarrow> order
                           \<Rightarrow> store \<times> import_result \<Rightarrow> store \<times> import_result" where
  "importOrder P duplicates duplicateHandling order = (\<lambda>(st, result).
     if o_id order \<in> set (map (\<lambda>dup. o_id (dup_import dup)) duplicates)
     then
       (if duplicateHandling = JStr (str ''overwrite'')
        then (updateOrder st (o_id order) (o_name order, o_createdAt order),
              result\<lparr>updated := updated result + 1\<rparr>)
        else if duplicateHandling = JStr (str ''merge'')
        then (case find (\<lambda>dup. o_id (dup_import dup) = o_id order) duplicates of
                None \<Rightarrow> (st, result\<lparr>import_errors := import_errors result
                                                     @ [OrderImportFailed (o_name order)]\<rparr>)
              | Some duplicate \<Rightarrow>
                  (updateOrder st (o_id order)
                     (o_name (dup_existing duplicate), o_createdAt (dup_existing duplicate)),
                   result\<lparr>updated := updated result + 1\<rparr>))
        else (st, result\<lparr>skipped := skipped result + 1\<rparr>))
     else
       (case createOrderForImport P st order of
          (st', True) \<Rightarrow> (st', result\<lparr>created := created result + 1\<rparr>)
        | (st', False) \<Rightarrow> (st', result\<lparr>import_errors := import_errors result
                                                       @ [OrderCreateFailed (o_name order)]\<rparr>)))"

definition importActivity :: "platform \<Rightarrow> activity duplicate list \<Rightarrow> json \<Rightarrow> activity
                              \<Rightarrow> store \<times> import_result \<Rightarrow> store \<times> import_result" where
  "importActivity P duplicates duplicateHandling activity = (\<lambda>(st, result).
     if a_id activity \<in> set (map (\<lambda>dup. a_id (dup_import dup)) duplicates)
     then
       (if duplicateHandling = JStr (str ''overwrite'')
        then (updateActivity st (a_id activity)
                (a_name activity, a_orderId activity, a_createdAt activity),
              result\<lparr>updated := updated result + 1\<rparr>)
        else if duplicateHandling = JStr (str ''merge'')
        then (case find (\<lambda>dup. a_id (dup_import dup) = a_id activity) duplicates of
                None \<Rightarrow> (st, result\<lparr>import_errors := import_errors result
                                                     @ [ActivityImportFailed (a_name activity)]\<rparr>)
              | Some duplicate \<Rightarrow>
                  (updateActivity st (a_id activity)
                     (a_name (dup_existing duplicate), a_orderId (dup_existing duplicate),
                      a_createdAt (dup_existing duplicate)),
                   result\<lparr>updated := updated result + 1\<rparr>))
        else (st, result\<lparr>skipped := skipped result + 1\<rparr>))
     else
       (case createActivityForImport P st activity of
          (st', True) \<Rightarrow> (st', result\<lparr>created := created result + 1\<rparr>)
        | (st', False) \<Rightarrow> (st', result\<lparr>import_errors := import_errors result
                                                       @ [ActivityCreateFailed (a_name activity)]\<rparr>)))"

definition emptyResult :: import_result where
  "emptyResult = \<lparr>created = 0, skipped = 0, updated = 0, import_errors = []\<rparr>"

definition importOrders :: "platform \<Rightarrow> store \<Rightarrow> order list \<Rightarrow> order duplicate list \<Rightarrow> json
                            \<Rightarrow> store \<times> import_result" where
  "importOrders P st orders duplicates duplicateHandling =
     fold (importOrder P duplicates duplicateHandling) orders (st, emptyResult)"

definition importActivities :: "platform \<Rightarrow> store \<Rightarrow> activity list \<Rightarrow> activity duplicate list \<Rightarrow> json
                                \<Rightarrow> store \<times> import_result" where
  "importActivities P st activities duplicates duplicateHandling =
     fold (importActivity P duplicates duplicateHandling) activities (st, emptyResult)"

text \<open>
  The repository may or may not offer \<open>saveData\<close> (the class \<open>DataRepository\<close> does not),
  and a call of it may raise.
\<close>

datatype save_hook = NoSaveData | SaveDataReturns | SaveDataRaises

record outcome =
  success :: bool
  newOrders :: nat
  newActivities :: nat
  skippedOrders :: nat
  skippedActivities :: nat
  updatedOrders :: nat
  updatedActivities :: nat
  outcome_errors :: "import_error list"

text \<open>
  \<open>executeImport\<close>: reading \<open>options.duplicateHandling\<close> from \<open>null\<close> or \<open>undefined\<close>
  raises inside the \<open>try\<close>, and the \<open>catch\<close> clause returns the initial counts with one
  error. Orders are imported before activities.
\<close>

definition executeImport :: "platform \<Rightarrow> save_hook \<Rightarrow> store \<Rightarrow> batch \<Rightarrow> duplicate_check \<Rightarrow> json
                             \<Rightarrow> store \<times> outcome" where
  "executeImport P hook st importData duplicateCheck options =
     (if is_nullish options
      then (st, \<lparr>success = False, newOrders = 0, newActivities = 0, skippedOrders = 0,
                 skippedActivities = 0, updatedOrders = 0, updatedActivities = 0,
                 outcome_errors = [ExecutionFailed]\<rparr>)
      else
        (let duplicateHandling = or_else (get options (str ''duplicateHandling'')) (JStr (str ''skip''));
             (st1, orderImportResult) =
                importOrders P st (b_orders importData) (duplicateOrders duplicateCheck)
                  duplicateHandling;
             (st2, activityImportResult) =
                importActivities P st1 (b_activities importData)
                  (duplicateActivities duplicateCheck) duplicateHandling;
             es = import_errors orderImportResult @ import_errors activityImportResult;
             ok = \<not> length es > 0;
             saveRaised = (ok \<and> hook = SaveDataRaises)
         in (st2, \<lparr>success = (ok \<and> \<not> saveRaised),
                    newOrders = created orderImportResult,
                    newActivities = created activityImportResult,
                    skippedOrders = skipped orderImportResult,
                    skippedActivities = skipped activityImportResult,
                    updatedOrders = updated orderImportResult,
                    updatedActivities = updated activityImportResult,
                    outcome_errors = es @ (if saveRaised then [SaveFailed] else [])\<rparr>)))"

section \<open>The import entry point\<close>

text \<open>
  \<open>importFromJSON\<close> after \<open>JSON.parse\<close>: a document that fails validation raises an error
  carrying the validation result, before the duplicate detector and the executor are
  reached. \<open>typedBatch\<close> reads the validated flat records as typed ones.
\<close>

definition typedBatch :: "flat_data \<Rightarrow> batch" where
  "typedBatch flatData =
     \<lparr>b_orders = map (\<lambda>order. \<lparr>o_id = the_string (fo_id order), o_name = the_string (fo_name order),
                                 o_createdAt = the_string (fo_createdAt order)\<rparr>)
                     (fd_orders flatData),
      b_activities = map (\<lambda>activity. \<lparr>a_id = the_string (fa_id activity),
                                        a_name = the_string (fa_name activity),
                                        a_orderId = the_string (fa_orderId activity),
                                        a_createdAt = the_string (fa_createdAt activity)\<rparr>)
                         (fd_activities flatData)\<rparr>"

datatype import_failure = ValidationFailed validation_result | Raised

definition importFromJSON :: "platform \<Rightarrow> save_hook \<Rightarrow> store \<Rightarrow> json \<Rightarrow> json
                              \<Rightarrow> store \<times> (import_failure + outcome)" where
  "importFromJSON P hook st importData options =
     (case validateImportData P importData of
        None \<Rightarrow> (st, Inl Raised)
      | Some validationResult \<Rightarrow>
          if \<not> isValid validationResult then (st, Inl (ValidationFailed validationResult))
          else
            (case flattenedData validationResult of
               None \<Rightarrow> (st, Inl Raised)
             | Some flatData \<Rightarrow>
                 (let duplicateCheck = checkDuplicates st (typedBatch flatData);
                      (st', result) = executeImport P hook st (typedBatch flatData) duplicateCheck
                                        (if options = JUndefined then JObj [] else options)
                  in if success result \<and> hook = SaveDataRaises then (st', Inl Raised)
                     else (st', Inr result))))"

section \<open>Example platform and records\<close>

text \<open>
  A platform on which the examples below are evaluated. It parses the timestamp the
  repository's own tests use, lower-cases ASCII letters, and reports a document size far
  below the limits.
\<close>

definition stamp :: jstring where
  "stamp = str ''2024-01-01T00:00:00Z''"

definition testPlatform :: platform where
  "testPlatform =
     \<lparr>stringifyLength = (\<lambda>v. 1024),
      dateTime = (\<lambda>v. if v = JStr stamp then Some 1704067200000 else None),
      fullYear = (\<lambda>t. 1970 + t div 31556952000),
      nowMs = 1762128000000,
      nowISO = stamp,
      toLowerCase = map (\<lambda>c. if 65 \<le> c \<and> c \<le> 90 then c + 32 else c),
      toNumber = (\<lambda>v. None),
      plusTimesOne = (\<lambda>a b. None)\<rparr>"

text \<open>An integrity result with four errors, one warning, two orphans and one duplicate id.\<close>

definition sampleResult :: integrity_result where
  "sampleResult =
     \<lparr>isValid = False,
      errors = [DuplicateOrderIds [JStr (str ''dup'')], OrphanSummary 2,
                OrphanDetail (JStr (str ''A'')) (JStr (str ''a1'')) (JStr (str ''x'')),
                OrphanDetail (JStr (str ''B'')) (JStr (str ''a2'')) (JStr (str ''y''))],
      warnings = [NameLong EOrder 0],
      orphanedActivities =
        [\<lparr>orph_index = 0, orph_activityId = JStr (str ''a1''), orph_activityName = JStr (str ''A''),
          orph_missingOrderId = JStr (str ''x'')\<rparr>,
         \<lparr>orph_index = 1, orph_activityId = JStr (str ''a2''), orph_activityName = JStr (str ''B''),
          orph_missingOrderId = JStr (str ''y'')\<rparr>],
      duplicateAnalysis =
        \<lparr>isValid = False, errors = [DuplicateOrderIds [JStr (str ''dup'')]], warnings = [],
         orderIds = [\<lparr>dup_id = JStr (str ''dup''), dup_indices = (0, 1),
                      dup_names = (JStr (str ''P''), JStr (str ''Q''))\<rparr>],
         activityIds = []\<rparr>,
      integrityScore = 0\<rparr>"

text \<open>
  The counts and errors of two consecutive stretches of an import loop, added up.
\<close>

definition addResults :: "import_result \<Rightarrow> import_result \<Rightarrow> import_result" where
  "addResults r1 r2 =
     \<lparr>created = created r1 + created r2, skipped = skipped r1 + skipped r2,
      updated = updated r1 + updated r2, import_errors = import_errors r1 @ import_errors r2\<rparr>"

text \<open>
  A store holding order \<open>o1\<close> with one activity, and a batch that collides with both by id.
\<close>

definition storeOne :: store where
  "storeOne = \<lparr>st_orders = [\<lparr>o_id = str ''o1'', o_name = str ''Kept'', o_createdAt = stamp\<rparr>],
               st_activities = [\<lparr>a_id = str ''a1'', a_name = str ''Task'', a_orderId = str ''o1'',
                                 a_createdAt = stamp\<rparr>]\<rparr>"

definition batchOne :: batch where
  "batchOne = \<lparr>b_orders = [\<lparr>o_id = str ''o1'', o_name = str ''Incoming'', o_createdAt = stamp\<rparr>],
               b_activities = [\<lparr>a_id = str ''a1'', a_name = str ''Changed'', a_orderId = str ''o1'',
                                a_createdAt = stamp\<rparr>]\<rparr>"








text \<open>
  A store in which order \<open>x\<close> carries the name the batch gives to order \<open>o1\<close>, and that
  batch.
\<close>

definition stampOld :: jstring where
  "stampOld = str ''2020-02-02T00:00:00Z''"

definition storeTwo :: store where
  "storeTwo =
     \<lparr>st_orders = [\<lparr>o_id = str ''x'', o_name = str ''Night'', o_createdAt = stampOld\<rparr>,
                   \<lparr>o_id = str ''o1'', o_name = str ''Morning'', o_createdAt = stamp\<rparr>],
      st_activities = []\<rparr>"

definition batchTwo :: batch where
  "batchTwo =
     \<lparr>b_orders = [\<lparr>o_id = str ''o1'', o_name = str ''Night'', o_createdAt = stamp\<rparr>],
      b_activities = []\<rparr>"

text \<open>
  A flat-form document: one order and, in a top-level array, one activity that points
  at an order the batch does not have.
\<close>

definition flatDocument :: json where
  "flatDocument =
     JObj [(str ''orders'',
            JArr [JObj [(str ''id'', JStr (str ''order_1'')), (str ''name'', JStr (str ''Order'')),
                        (str ''createdAt'', JStr stamp)]]),
           (str ''activities'',
            JArr [JObj [(str ''id'', JStr (str ''activity_1'')), (str ''name'', JStr (str ''Task'')),
                        (str ''orderId'', JStr (str ''nonexistent_order'')),
                        (str ''createdAt'', JStr stamp)]])]"

text \<open>A document with one order whose name is 200 times the letter \<open>a\<close>.\<close>

definition longNameDocument :: json where
  "longNameDocument =
     JObj [(str ''orders'',
            JArr [JObj [(str ''id'', JStr (str ''o1'')), (str ''name'', JStr (replicate 200 97)),
                        (str ''createdAt'', JStr stamp)]])]"

text \<open>
  The grouping a nested document states, read off the document alone. An element of
  \<open>orders\<close> counts as an order, and an element of an order's \<open>activities\<close> as an
  activity embedded under it, when it is a record (a non-null value of type object).
\<close>

definition isRecord :: "json \<Rightarrow> bool" where
  "isRecord v = (truthy v \<and> typeof_object v)"

text \<open>
  \<open>documentGrouping\<close> is the grouping as written: the orders in document order, each with
  the id, name and timestamp it carries and with the activities embedded under it, in
  their order, each with the id, name and timestamp it carries. It is the whole grouping
  of a document that is complete: every element is a record that carries an id, a name
  and a timestamp.
\<close>

definition documentActivity :: "json \<Rightarrow> nested_activity" where
  "documentActivity activity =
     \<lparr>na_id = get activity (str ''id''), na_name = get activity (str ''name''),
      na_createdAt = get activity (str ''createdAt'')\<rparr>"

definition documentOrder :: "json \<Rightarrow> nested_order" where
  "documentOrder order =
     \<lparr>no_id = get order (str ''id''), no_name = get order (str ''name''),
      no_createdAt = get order (str ''createdAt''),
      no_activities = map documentActivity (arrayMember order (str ''activities''))\<rparr>"

definition documentGrouping :: "json \<Rightarrow> nested_order list" where
  "documentGrouping nestedData = map documentOrder (arrayMember nestedData (str ''orders''))"

definition completeRecord :: "json \<Rightarrow> bool" where
  "completeRecord v =
     (isRecord v \<and> truthy (get v (str ''id'')) \<and> truthy (get v (str ''name''))
      \<and> truthy (get v (str ''createdAt'')))"

definition completeDocument :: "json \<Rightarrow> bool" where
  "completeDocument nestedData =
     list_all (\<lambda>order. completeRecord order
                        \<and> list_all completeRecord (arrayMember order (str ''activities'')))
              (arrayMember nestedData (str ''orders''))"

text \<open>
  \<open>originalGrouping\<close> is the grouping of any document: the elements that are not records
  are left out, and an id, a name or a timestamp that a record lacks is the one the
  normalizer is specified to supply for its position (\<open>generated_order_i\<close>,
  \<open>generated_activity_i_j\<close>, the default names, the current time). The positions are those
  in the document, counted before anything is left out.
\<close>

definition statedActivity :: "platform \<Rightarrow> nat \<Rightarrow> nat \<times> json \<Rightarrow> nested_activity" where
  "statedActivity P index = (\<lambda>(actIndex, activity).
     \<lparr>na_id = (if truthy (get activity (str ''id'')) then get activity (str ''id'')
               else JStr (str ''generated_activity_'' @ dec index @ str ''_'' @ dec actIndex)),
      na_name = (if truthy (get activity (str ''name'')) then get activity (str ''name'')
                 else JStr (activityLabel @ dec actIndex)),
      na_createdAt = (if truthy (get activity (str ''createdAt''))
                      then get activity (str ''createdAt'') else JStr (nowISO P))\<rparr>)"

definition statedOrder :: "platform \<Rightarrow> nat \<times> json \<Rightarrow> nested_order" where
  "statedOrder P = (\<lambda>(index, order).
     \<lparr>no_id = (if truthy (get order (str ''id'')) then get order (str ''id'')
               else JStr (str ''generated_order_'' @ dec index)),
      no_name = (if truthy (get order (str ''name'')) then get order (str ''name'')
                 else JStr (orderLabel @ dec index)),
      no_createdAt = (if truthy (get order (str ''createdAt''))
                      then get order (str ''createdAt'') else JStr (nowISO P)),
      no_activities =
        map (statedActivity P index)
            (filter (\<lambda>(actIndex, activity). isRecord activity)
                    (enumerate 0 (arrayMember order (str ''activities''))))\<rparr>)"

definition originalGrouping :: "platform \<Rightarrow> json \<Rightarrow> nested_order list" where
  "originalGrouping P nestedData =
     map (statedOrder P)
         (filter (\<lambda>(index, order). isRecord order)
                 (enumerate 0 (arrayMember nestedData (str ''orders''))))"

text \<open>
  Two nested documents: in the first the two orders share the id \<open>o1\<close>, in the second the
  ids differ. Each order embeds one activity.
\<close>

definition twinDocument :: json where
  "twinDocument =
     JObj [(str ''orders'',
            JArr [JObj [(str ''id'', JStr (str ''o1'')), (str ''name'', JStr (str ''A'')),
                        (str ''createdAt'', JStr stamp),
                        (str ''activities'',
                         JArr [JObj [(str ''id'', JStr (str ''a1'')), (str ''name'', JStr (str ''x'')),
                                     (str ''createdAt'', JStr stamp)]])],
                  JObj [(str ''id'', JStr (str ''o1'')), (str ''name'', JStr (str ''B'')),
                        (str ''createdAt'', JStr stamp),
                        (str ''activities'',
                         JArr [JObj [(str ''id'', JStr (str ''a2'')), (str ''name'', JStr (str ''y'')),
                                     (str ''createdAt'', JStr stamp)]])]])]"

definition pairDocument :: json where
  "pairDocument =
     JObj [(str ''orders'',
            JArr [JObj [(str ''id'', JStr (str ''o1'')), (str ''name'', JStr (str ''A'')),
                        (str ''createdAt'', JStr stamp),
                        (str ''activities'',
                         JArr [JObj [(str ''id'', JStr (str ''a1'')), (str ''name'', JStr (str ''x'')),
                                     (str ''createdAt'', JStr stamp)]])],
                  JObj [(str ''id'', JStr (str ''o2'')), (str ''name'', JStr (str ''B'')),
                        (str ''createdAt'', JStr stamp),
                        (str ''activities'',
                         JArr [JObj [(str ''id'', JStr (str ''a2'')), (str ''name'', JStr (str ''y'')),
                                     (str ''createdAt'', JStr stamp)]])]])]"

text \<open>
  What \<open>flattenOrder\<close> returns: nothing, or one order and activities that all carry its id.
\<close>

definition ownGroup :: "flat_order list \<times> flat_activity list \<Rightarrow> bool" where
  "ownGroup r = (case r of
                   ([], acts) \<Rightarrow> acts = []
                 | (flatOrder # others, acts) \<Rightarrow>
                     others = [] \<and> list_all (\<lambda>a. fa_orderId a = fo_id flatOrder) acts)"

text \<open>The nested order a group of \<open>flattenOrder\<close> stands for.\<close>

definition nestGroup :: "flat_order list \<times> flat_activity list \<Rightarrow> nested_order list" where
  "nestGroup r = (case r of
                    (flatOrder # others, acts) \<Rightarrow>
                      [\<lparr>no_id = fo_id flatOrder, no_name = fo_name flatOrder,
                        no_createdAt = fo_createdAt flatOrder,
                        no_activities = map stripActivity acts\<rparr>]
                  | ([], acts) \<Rightarrow> [])"

text \<open>
  The entry the relationship analysis records for the activity at \<open>index\<close>: one entry when
  its \<open>orderId\<close> is non-empty and outside the batch's order ids, none otherwise.
\<close>

definition orphanEntry :: "json set \<Rightarrow> nat \<times> flat_activity \<Rightarrow> orphaned_activity list" where
  "orphanEntry validOrderIds = (\<lambda>(index, activity).
     if truthy (fa_orderId activity) \<and> fa_orderId activity \<notin> validOrderIds
     then [\<lparr>orph_index = index, orph_activityId = fa_id activity,
            orph_activityName = fa_name activity, orph_missingOrderId = fa_orderId activity\<rparr>]
     else [])"

text \<open>
  Flat records for the examples: an order, an order with a name of 51 code units, a
  document holding the latter, an activity pointing at a missing order \<open>zz\<close>, an activity
  of order \<open>o1\<close>, and an activity with an empty \<open>orderId\<close>.
\<close>

definition plainOrder :: flat_order where
  "plainOrder = \<lparr>fo_id = JStr (str ''o1''), fo_name = JStr (str ''Order''), fo_createdAt = JStr stamp\<rparr>"

definition wordyOrder :: flat_order where
  "wordyOrder = \<lparr>fo_id = JStr (str ''o1''), fo_name = JStr (replicate 51 97),
                  fo_createdAt = JStr stamp\<rparr>"

definition wordyDocument :: json where
  "wordyDocument =
     JObj [(str ''orders'',
            JArr [JObj [(str ''id'', JStr (str ''o1'')), (str ''name'', JStr (replicate 51 97)),
                        (str ''createdAt'', JStr stamp)]])]"


definition linkedActivity :: flat_activity where
  "linkedActivity = \<lparr>fa_id = JStr (str ''a3''), fa_name = JStr (str ''Task''),
                      fa_orderId = JStr (str ''o1''), fa_createdAt = JStr stamp\<rparr>"


section \<open>Properties\<close>

subsection \<open>Integrity score\<close>

lemma caught_integrityScore: "integrityScore (caught r) = integrityScore r"
  by (simp add: caught_def)

lemma validateDataIntegrity_score_cases:
  "integrityScore (validateDataIntegrity P orders activities) =
     (case analyzeNameDuplicates P orders activities of
        None \<Rightarrow> 0
      | Some nameWarnings \<Rightarrow>
          (case analyzeDataQuality P orders activities of
             None \<Rightarrow> 0
           | Some qualityWarnings \<Rightarrow>
               calculateIntegrityScore (validateDataIntegrity P orders activities)))"
  by (simp add: validateDataIntegrity_def Let_def caught_def calculateIntegrityScore_def
      split: option.splits)

text \<open>
  Claim C6. For every integrity result, \<open>calculateIntegrityScore\<close> is 100 minus 10 per
  error, 2 per warning, 5 per orphaned activity and 8 per duplicate id entry (of orders and
  of activities), clamped to the interval from 0 to 100; so it never exceeds 100 and never
  falls below 0. The result \<open>validateDataIntegrity\<close> returns carries that score of its own
  final fields whenever its analysers return, and the initial 0 when one of them raises.
\<close>

theorem integrity_score_formula:
  "calculateIntegrityScore r =
     max 0 (min 100 (100 - 10 * int (length (errors r)) - 2 * int (length (warnings r))
                     - 5 * int (length (orphanedActivities r))
                     - 8 * (int (length (orderIds (duplicateAnalysis r)))
                            + int (length (activityIds (duplicateAnalysis r))))))
   \<and> 0 \<le> calculateIntegrityScore r \<and> calculateIntegrityScore r \<le> 100
   \<and> integrityScore (validateDataIntegrity P orders activities) =
       (case analyzeNameDuplicates P orders activities of
          None \<Rightarrow> 0
        | Some nameWarnings \<Rightarrow>
            (case analyzeDataQuality P orders activities of
               None \<Rightarrow> 0
             | Some qualityWarnings \<Rightarrow>
                 calculateIntegrityScore (validateDataIntegrity P orders activities)))
   \<and> 0 \<le> integrityScore (validateDataIntegrity P orders activities)
   \<and> integrityScore (validateDataIntegrity P orders activities) \<le> 100"
proof -
  have formula: "calculateIntegrityScore r =
     max 0 (min 100 (100 - 10 * int (length (errors r)) - 2 * int (length (warnings r))
                     - 5 * int (length (orphanedActivities r))
                     - 8 * (int (length (orderIds (duplicateAnalysis r)))
                            + int (length (activityIds (duplicateAnalysis r))))))"
    by (simp add: calculateIntegrityScore_def Let_def)
  have bounds: "0 \<le> calculateIntegrityScore x \<and> calculateIntegrityScore x \<le> 100" for x
    by (simp add: calculateIntegrityScore_def Let_def)
  have "0 \<le> integrityScore (validateDataIntegrity P orders activities)
        \<and> integrityScore (validateDataIntegrity P orders activities) \<le> 100"
    using bounds [of "validateDataIntegrity P orders activities"]
    by (simp add: validateDataIntegrity_score_cases split: option.splits)
  with formula bounds [of r] validateDataIntegrity_score_cases [of P orders activities]
  show ?thesis by simp
qed

theorem integrity_score_formula_witness:
  "calculateIntegrityScore sampleResult = 40
   \<and> calculateIntegrityScore (sampleResult\<lparr>errors := replicate 30 IntegrityException\<rparr>) = 0
   \<and> calculateIntegrityScore
        (sampleResult\<lparr>errors := [], warnings := [], orphanedActivities := [],
           duplicateAnalysis := \<lparr>isValid = True, errors = [], warnings = [],
                                  orderIds = [], activityIds = []\<rparr>\<rparr>) = 100"
  using integrity_score_formula [of sampleResult testPlatform "[]" "[]"]
    integrity_score_formula [of "sampleResult\<lparr>errors := replicate 30 IntegrityException\<rparr>"
                                testPlatform "[]" "[]"]
  by (simp add: sampleResult_def calculateIntegrityScore_def)

subsection \<open>Structural stage\<close>

text \<open>
  Claim C8. For every document whose root is a JSON array, validation stops at the
  structural stage: the result is invalid with the single top-level error of
  \<open>validateRootStructure\<close>, it carries no per-record error, no warning and no flattened
  data (the normalizer, the type validator and the integrity analyzer were not reached),
  and \<open>importFromJSON\<close> fails with that result and leaves the store as it was (the
  duplicate detector and the executor were not reached).
\<close>

theorem array_root_stops_at_structure:
  "validateRootStructure (JArr xs) = \<lparr>isValid = False, errors = [RootIsArray], warnings = []\<rparr>
   \<and> validateImportData P (JArr xs)
       = Some \<lparr>isValid = False, errors = [RootIsArray], warnings = [], flattenedData = None\<rparr>
   \<and> importFromJSON P hook st (JArr xs) options
       = (st, Inl (ValidationFailed \<lparr>isValid = False, errors = [RootIsArray], warnings = [],
                                     flattenedData = None\<rparr>))"
  by (simp add: importFromJSON_def validateImportData_def validateJSONSchema_def
      validateRootStructure_def Let_def)

theorem array_root_stops_at_structure_witness:
  "validateImportData testPlatform
     (JArr [JObj [(str ''id'', JStr (str ''o1'')), (str ''name'', JStr (replicate 201 97))]])
     = Some \<lparr>isValid = False, errors = [RootIsArray], warnings = [], flattenedData = None\<rparr>
   \<and> importFromJSON testPlatform NoSaveData \<lparr>st_orders = [], st_activities = []\<rparr>
       (JArr [JObj [(str ''id'', JStr (str ''o1'')), (str ''name'', JStr (replicate 201 97))]])
       (JObj [(str ''duplicateHandling'', JStr (str ''overwrite''))])
       = (\<lparr>st_orders = [], st_activities = []\<rparr>,
          Inl (ValidationFailed \<lparr>isValid = False, errors = [RootIsArray], warnings = [],
                                 flattenedData = None\<rparr>))"
  using array_root_stops_at_structure
          [of "[JObj [(str ''id'', JStr (str ''o1'')), (str ''name'', JStr (replicate 201 97))]]"
              testPlatform NoSaveData "\<lparr>st_orders = [], st_activities = []\<rparr>"
              "JObj [(str ''duplicateHandling'', JStr (str ''overwrite''))]"]
  by simp

subsection \<open>Reconciliation\<close>

lemma policy_literals:
  "str ''skip'' \<noteq> str ''overwrite''" "str ''skip'' \<noteq> str ''merge''"
  "str ''overwrite'' \<noteq> str ''merge''"
  by (simp_all add: str_def)

lemma get_singleton: "get (JObj [(k, v)]) k = v"
  by (simp add: get_def)

lemma addResults_empty [simp]: "addResults emptyResult r = r" "addResults r emptyResult = r"
  by (simp_all add: addResults_def emptyResult_def)






































subsection \<open>Duplicate-handling policy\<close>

lemma importOrder_default:
  "h \<noteq> JStr (str ''overwrite'') \<Longrightarrow> h \<noteq> JStr (str ''merge'') \<Longrightarrow>
     importOrder P d h = importOrder P d (JStr (str ''skip''))"
  using policy_literals by (simp add: importOrder_def fun_eq_iff)

lemma importActivity_default:
  "h \<noteq> JStr (str ''overwrite'') \<Longrightarrow> h \<noteq> JStr (str ''merge'') \<Longrightarrow>
     importActivity P d h = importActivity P d (JStr (str ''skip''))"
  using policy_literals by (simp add: importActivity_def fun_eq_iff)

lemma or_else_default:
  "v \<noteq> JStr (str ''overwrite'') \<Longrightarrow> v \<noteq> JStr (str ''merge'') \<Longrightarrow>
     or_else v (JStr (str ''skip'')) \<noteq> JStr (str ''overwrite'')
     \<and> or_else v (JStr (str ''skip'')) \<noteq> JStr (str ''merge'')"
  using policy_literals by (simp add: or_else_def)

lemma importOrder_skips_duplicate:
  "h \<noteq> JStr (str ''overwrite'') \<Longrightarrow> h \<noteq> JStr (str ''merge'') \<Longrightarrow>
   o_id order \<in> set (map (\<lambda>dup. o_id (dup_import dup)) d) \<Longrightarrow>
     importOrder P d h order (st, result) = (st, result\<lparr>skipped := skipped result + 1\<rparr>)"
  by (simp add: importOrder_def)

lemma importActivity_skips_duplicate:
  "h \<noteq> JStr (str ''overwrite'') \<Longrightarrow> h \<noteq> JStr (str ''merge'') \<Longrightarrow>
   a_id activity \<in> set (map (\<lambda>dup. a_id (dup_import dup)) d) \<Longrightarrow>
     importActivity P d h activity (st, result) = (st, result\<lparr>skipped := skipped result + 1\<rparr>)"
  by (simp add: importActivity_def)

lemma executeImport_same_steps:
  assumes "\<not> is_nullish options" and "\<not> is_nullish options'"
    and "importOrder P (duplicateOrders duplicateCheck)
           (or_else (get options (str ''duplicateHandling'')) (JStr (str ''skip'')))
         = importOrder P (duplicateOrders duplicateCheck)
             (or_else (get options' (str ''duplicateHandling'')) (JStr (str ''skip'')))"
    and "importActivity P (duplicateActivities duplicateCheck)
           (or_else (get options (str ''duplicateHandling'')) (JStr (str ''skip'')))
         = importActivity P (duplicateActivities duplicateCheck)
             (or_else (get options' (str ''duplicateHandling'')) (JStr (str ''skip'')))"
  shows "executeImport P hook st importData duplicateCheck options
         = executeImport P hook st importData duplicateCheck options'"
  unfolding executeImport_def importOrders_def importActivities_def Let_def
  using assms by simp

lemma checkDuplicates_one:
  "checkDuplicates storeOne batchOne =
     \<lparr>hasDuplicates = True,
      duplicateOrders =
        [\<lparr>dup_import = \<lparr>o_id = str ''o1'', o_name = str ''Incoming'', o_createdAt = stamp\<rparr>,
          dup_existing = \<lparr>o_id = str ''o1'', o_name = str ''Kept'', o_createdAt = stamp\<rparr>,
          dup_type = MatchId\<rparr>],
      duplicateActivities =
        [\<lparr>dup_import = \<lparr>a_id = str ''a1'', a_name = str ''Changed'', a_orderId = str ''o1'',
                         a_createdAt = stamp\<rparr>,
          dup_existing = \<lparr>a_id = str ''a1'', a_name = str ''Task'', a_orderId = str ''o1'',
                           a_createdAt = stamp\<rparr>,
          dup_type = MatchId\<rparr>]\<rparr>"
  by (simp add: checkDuplicates_def storeOne_def batchOne_def orderDuplicate_def
      activityDuplicate_def)

lemma executeImport_skip_one:
  "executeImport testPlatform NoSaveData storeOne batchOne (checkDuplicates storeOne batchOne)
     (JObj [(str ''duplicateHandling'', JStr (str ''skip''))])
   = (storeOne, \<lparr>success = True, newOrders = 0, newActivities = 0, skippedOrders = 1,
                  skippedActivities = 1, updatedOrders = 0, updatedActivities = 0,
                  outcome_errors = []\<rparr>)"
  unfolding checkDuplicates_one
  by (simp add: executeImport_def importOrders_def importActivities_def Let_def
      importOrder_def importActivity_def emptyResult_def get_singleton or_else_def
      policy_literals batchOne_def)

text \<open>
  Whatever value the option \<open>duplicateHandling\<close> has, other than the strings
  \<open>overwrite\<close> and \<open>merge\<close> (a missing member, an unknown string, a value of another type),
  \<open>executeImport\<close> called with an options object returns the outcome and the store it
  returns under \<open>skip\<close>, and each record whose id is in the duplicate list is counted as
  skipped with the store untouched. So does \<open>importFromJSON\<close>, also when its options
  argument is left out.
\<close>

lemma other_policy_behaves_as_skip:
  assumes "get options (str ''duplicateHandling'') \<noteq> JStr (str ''overwrite'')"
    and "get options (str ''duplicateHandling'') \<noteq> JStr (str ''merge'')"
  shows "(\<not> is_nullish options \<longrightarrow>
            executeImport P hook st importData duplicateCheck options
              = executeImport P hook st importData duplicateCheck
                  (JObj [(str ''duplicateHandling'', JStr (str ''skip''))]))
         \<and> (options \<noteq> JNull \<longrightarrow>
              importFromJSON P hook st document options
                = importFromJSON P hook st document
                    (JObj [(str ''duplicateHandling'', JStr (str ''skip''))]))
         \<and> (\<forall>order st' result.
               o_id order \<in> set (map (\<lambda>dup. o_id (dup_import dup)) (duplicateOrders duplicateCheck))
               \<longrightarrow> importOrder P (duplicateOrders duplicateCheck)
                     (or_else (get options (str ''duplicateHandling'')) (JStr (str ''skip'')))
                     order (st', result)
                   = (st', result\<lparr>skipped := skipped result + 1\<rparr>))
         \<and> (\<forall>activity st' result.
               a_id activity
                 \<in> set (map (\<lambda>dup. a_id (dup_import dup)) (duplicateActivities duplicateCheck))
               \<longrightarrow> importActivity P (duplicateActivities duplicateCheck)
                     (or_else (get options (str ''duplicateHandling'')) (JStr (str ''skip'')))
                     activity (st', result)
                   = (st', result\<lparr>skipped := skipped result + 1\<rparr>))"
proof -
  let ?skip = "JObj [(str ''duplicateHandling'', JStr (str ''skip''))]"
  let ?h = "or_else (get options (str ''duplicateHandling'')) (JStr (str ''skip''))"
  let ?given = "if options = JUndefined then JObj [] else options"
  have h: "?h \<noteq> JStr (str ''overwrite'')" "?h \<noteq> JStr (str ''merge'')"
    using or_else_default [OF assms] by simp_all
  have s: "or_else (get ?skip (str ''duplicateHandling'')) (JStr (str ''skip''))
             = JStr (str ''skip'')"
    by (simp add: or_else_def get_singleton)
  have same: "executeImport P hook st b dc opts = executeImport P hook st b dc ?skip"
    if "\<not> is_nullish opts"
      and "get opts (str ''duplicateHandling'') = get options (str ''duplicateHandling'')"
    for b dc opts
    by (rule executeImport_same_steps)
       (simp_all add: that s importOrder_default [OF h] importActivity_default [OF h])
  have given: "get ?given (str ''duplicateHandling'') = get options (str ''duplicateHandling'')"
    by (simp add: get_def)
  have entry: "importFromJSON P hook st document options = importFromJSON P hook st document ?skip"
    if "options \<noteq> JNull"
  proof -
    have "\<not> is_nullish ?given"
      using that by (cases options) simp_all
    from same [OF this given]
    have e: "executeImport P hook st b dc ?given = executeImport P hook st b dc ?skip" for b dc .
    have sk: "(if ?skip = JUndefined then JObj [] else ?skip) = ?skip"
      by simp
    show ?thesis
      unfolding importFromJSON_def e sk by (rule refl)
  qed
  from same [of options] entry
    importOrder_skips_duplicate [OF h] importActivity_skips_duplicate [OF h]
  show ?thesis by blast
qed

lemma executeImport_without_options:
  "is_nullish options \<Longrightarrow>
     executeImport P hook st importData duplicateCheck options
       = (st, \<lparr>success = False, newOrders = 0, newActivities = 0, skippedOrders = 0,
                 skippedActivities = 0, updatedOrders = 0, updatedActivities = 0,
                 outcome_errors = [ExecutionFailed]\<rparr>)"
  by (simp add: executeImport_def)

text \<open>
  Claim C10 does not hold for an absent option: \<open>executeImport\<close> called without its
  options argument (or with \<open>null\<close>) raises on reading \<open>options.duplicateHandling\<close>; its
  \<open>catch\<close> returns a failure with one error, no record is counted as skipped, and both loops
  are left out. For an options object, every value of \<open>duplicateHandling\<close> other than
  \<open>overwrite\<close> and \<open>merge\<close>, a missing member included, behaves as \<open>skip\<close>.
\<close>

theorem absent_options_fail_instead_of_skip:
  "(is_nullish options \<longrightarrow>
      executeImport P hook st importData duplicateCheck options
        = (st, \<lparr>success = False, newOrders = 0, newActivities = 0, skippedOrders = 0,
                  skippedActivities = 0, updatedOrders = 0, updatedActivities = 0,
                  outcome_errors = [ExecutionFailed]\<rparr>))
   \<and> (get options (str ''duplicateHandling'') \<noteq> JStr (str ''overwrite'')
        \<and> get options (str ''duplicateHandling'') \<noteq> JStr (str ''merge'')
      \<longrightarrow>
        (\<not> is_nullish options \<longrightarrow>
            executeImport P hook st importData duplicateCheck options
              = executeImport P hook st importData duplicateCheck
                  (JObj [(str ''duplicateHandling'', JStr (str ''skip''))]))
         \<and> (options \<noteq> JNull \<longrightarrow>
              importFromJSON P hook st document options
                = importFromJSON P hook st document
                    (JObj [(str ''duplicateHandling'', JStr (str ''skip''))]))
         \<and> (\<forall>order st' result.
               o_id order \<in> set (map (\<lambda>dup. o_id (dup_import dup)) (duplicateOrders duplicateCheck))
               \<longrightarrow> importOrder P (duplicateOrders duplicateCheck)
                     (or_else (get options (str ''duplicateHandling'')) (JStr (str ''skip'')))
                     order (st', result)
                   = (st', result\<lparr>skipped := skipped result + 1\<rparr>))
         \<and> (\<forall>activity st' result.
               a_id activity
                 \<in> set (map (\<lambda>dup. a_id (dup_import dup)) (duplicateActivities duplicateCheck))
               \<longrightarrow> importActivity P (duplicateActivities duplicateCheck)
                     (or_else (get options (str ''duplicateHandling'')) (JStr (str ''skip'')))
                     activity (st', result)
                   = (st', result\<lparr>skipped := skipped result + 1\<rparr>)))"
  apply (rule conjI)
  subgoal
    by (simp add: executeImport_without_options)
  subgoal
    using other_policy_behaves_as_skip
            [where options = options and P = P and hook = hook and st = st
               and importData = importData and duplicateCheck = duplicateCheck
               and document = document]
    by blast
  done

theorem absent_options_fail_instead_of_skip_witness:
  "executeImport testPlatform NoSaveData storeOne batchOne (checkDuplicates storeOne batchOne)
     JUndefined
   = (storeOne, \<lparr>success = False, newOrders = 0, newActivities = 0, skippedOrders = 0,
                  skippedActivities = 0, updatedOrders = 0, updatedActivities = 0,
                  outcome_errors = [ExecutionFailed]\<rparr>)
   \<and> executeImport testPlatform NoSaveData storeOne batchOne (checkDuplicates storeOne batchOne)
       (JObj [(str ''duplicateHandling'', JStr (str ''skip''))])
   = (storeOne, \<lparr>success = True, newOrders = 0, newActivities = 0, skippedOrders = 1,
                  skippedActivities = 1, updatedOrders = 0, updatedActivities = 0,
                  outcome_errors = []\<rparr>)
   \<and> executeImport testPlatform NoSaveData storeOne batchOne (checkDuplicates storeOne batchOne)
       (JObj [])
   = (storeOne, \<lparr>success = True, newOrders = 0, newActivities = 0, skippedOrders = 1,
                  skippedActivities = 1, updatedOrders = 0, updatedActivities = 0,
                  outcome_errors = []\<rparr>)
   \<and> executeImport testPlatform NoSaveData storeOne batchOne (checkDuplicates storeOne batchOne)
       (JObj [(str ''duplicateHandling'', JStr (str ''replace''))])
   = (storeOne, \<lparr>success = True, newOrders = 0, newActivities = 0, skippedOrders = 1,
                  skippedActivities = 1, updatedOrders = 0, updatedActivities = 0,
                  outcome_errors = []\<rparr>)"
proof -
  have absent: "get (JObj []) (str ''duplicateHandling'') \<noteq> JStr (str ''overwrite'')
                \<and> get (JObj []) (str ''duplicateHandling'') \<noteq> JStr (str ''merge'')"
    by (simp add: get_def)
  have other: "get (JObj [(str ''duplicateHandling'', JStr (str ''replace''))])
                 (str ''duplicateHandling'') \<noteq> JStr (str ''overwrite'')
               \<and> get (JObj [(str ''duplicateHandling'', JStr (str ''replace''))])
                 (str ''duplicateHandling'') \<noteq> JStr (str ''merge'')"
    by (simp add: get_singleton str_def)
  have obj: "\<not> is_nullish (JObj kvs)" "is_nullish JUndefined" for kvs
    by simp_all
  from absent_options_fail_instead_of_skip
         [of JUndefined testPlatform NoSaveData storeOne batchOne
             "checkDuplicates storeOne batchOne"]
  have none: "executeImport testPlatform NoSaveData storeOne batchOne
                (checkDuplicates storeOne batchOne) JUndefined
              = (storeOne, \<lparr>success = False, newOrders = 0, newActivities = 0, skippedOrders = 0,
                  skippedActivities = 0, updatedOrders = 0, updatedActivities = 0,
                  outcome_errors = [ExecutionFailed]\<rparr>)"
    using obj(2) by blast
  from absent_options_fail_instead_of_skip
         [of "JObj []" testPlatform NoSaveData storeOne batchOne
             "checkDuplicates storeOne batchOne"] absent obj(1)
  have empty: "executeImport testPlatform NoSaveData storeOne batchOne
                 (checkDuplicates storeOne batchOne) (JObj [])
               = executeImport testPlatform NoSaveData storeOne batchOne
                   (checkDuplicates storeOne batchOne)
                   (JObj [(str ''duplicateHandling'', JStr (str ''skip''))])"
    by blast
  from absent_options_fail_instead_of_skip
         [of "JObj [(str ''duplicateHandling'', JStr (str ''replace''))]" testPlatform NoSaveData
             storeOne batchOne "checkDuplicates storeOne batchOne"] other obj(1)
  have unknown: "executeImport testPlatform NoSaveData storeOne batchOne
                   (checkDuplicates storeOne batchOne)
                   (JObj [(str ''duplicateHandling'', JStr (str ''replace''))])
                 = executeImport testPlatform NoSaveData storeOne batchOne
                     (checkDuplicates storeOne batchOne)
                     (JObj [(str ''duplicateHandling'', JStr (str ''skip''))])"
    by blast
  show ?thesis
    unfolding none empty unknown executeImport_skip_one by simp
qed

subsection \<open>Evaluating the validation pipeline on example documents\<close>

lemma trim_replicate: "\<not> is_ws c \<Longrightarrow> trim (replicate n c) = replicate n c"
  by (simp add: trim_def)

lemma longName_schema:
  "validateJSONSchema testPlatform longNameDocument
     = \<lparr>isValid = True, errors = [], warnings = [VersionMissing]\<rparr>"
  by (simp add: validateJSONSchema_def validateRootStructure_def validateRequiredProperties_def
      validateSchemaDataTypes_def validateNestedOrderSchemaTypes_def requiredFieldErrors_def
      validateSchemaConstraints_def validateStringConstraints_def orderStringErrors_def
      lengthError_def countCheck_def arrayMember_def validateSchemaVersion_def
      generatePerformanceWarnings_def estimateMemoryUsage_def estimateProcessingTime_def
      elementCount_def longNameDocument_def get_def has_key_def testPlatform_def Let_def
      enumerate_eq_zip str_def)

lemma longName_constraints:
  "validateStringConstraints testPlatform longNameDocument = Some []"
  by (simp add: validateStringConstraints_def orderStringErrors_def lengthError_def
      arrayMember_def longNameDocument_def get_def Let_def enumerate_eq_zip str_def)

lemma longName_flat:
  "convertNestedToFlat testPlatform longNameDocument
     = Some \<lparr>fd_orders = [\<lparr>fo_id = JStr (str ''o1''), fo_name = JStr (replicate 200 97),
                              fo_createdAt = JStr stamp\<rparr>],
             fd_activities = []\<rparr>"
  by (simp add: convertNestedToFlat_def flattenOrder_def arrayMember_def or_else_def
      longNameDocument_def get_def Let_def enumerate_eq_zip str_def stamp_def)

lemma longName_types:
  "validateDataTypes testPlatform
     (order_json \<lparr>fo_id = JStr (str ''o1''), fo_name = JStr (replicate 200 97),
                  fo_createdAt = JStr stamp\<rparr>) EOrder 0 = [NameInvalid EOrder 0]"
  by (simp add: validateDataTypes_def order_json_def get_def expectedProperties_def
      trim_replicate is_ws_def is_control_def str_def stamp_def testPlatform_def trim_def)

lemma longName_integrity:
  "validateDataIntegrity testPlatform
     [\<lparr>fo_id = JStr (str ''o1''), fo_name = JStr (replicate 200 97), fo_createdAt = JStr stamp\<rparr>] []
   = \<lparr>isValid = True, errors = [], warnings = [NameLong EOrder 0],
      orphanedActivities = [],
      duplicateAnalysis = \<lparr>isValid = True, errors = [], warnings = [], orderIds = [],
                            activityIds = []\<rparr>,
      integrityScore = 98\<rparr>"
  by (simp add: validateDataIntegrity_def analyzeIdDuplicates_def noteOrderId_def
      analyzeRelationships_def analyzeNameDuplicates_def noteOrderName_def
      analyzeDataQuality_def trimRaises_def blank_def longName_def unusualDate_def
      calculateIntegrityScore_def enumerate_eq_zip Let_def
      trim_replicate is_ws_def str_def stamp_def testPlatform_def trim_def)

lemma flatDocument_schema:
  "validateJSONSchema testPlatform flatDocument
     = \<lparr>isValid = True, errors = [], warnings = [VersionMissing]\<rparr>"
  by (simp add: validateJSONSchema_def validateRootStructure_def validateRequiredProperties_def
      validateSchemaDataTypes_def validateNestedOrderSchemaTypes_def requiredFieldErrors_def
      validateSchemaConstraints_def validateStringConstraints_def orderStringErrors_def
      activityStringErrors_def lengthError_def countCheck_def arrayMember_def
      validateSchemaVersion_def generatePerformanceWarnings_def estimateMemoryUsage_def
      estimateProcessingTime_def elementCount_def flatDocument_def get_def has_key_def
      testPlatform_def Let_def enumerate_eq_zip str_def)

lemma flatDocument_flat:
  "convertNestedToFlat testPlatform flatDocument
     = Some \<lparr>fd_orders = [\<lparr>fo_id = JStr (str ''order_1''), fo_name = JStr (str ''Order''),
                              fo_createdAt = JStr stamp\<rparr>],
             fd_activities = []\<rparr>"
  by (simp add: convertNestedToFlat_def flattenOrder_def arrayMember_def or_else_def
      flatDocument_def get_def Let_def enumerate_eq_zip str_def stamp_def)

lemma flatDocument_types:
  "validateDataTypes testPlatform
     (order_json \<lparr>fo_id = JStr (str ''order_1''), fo_name = JStr (str ''Order''),
                  fo_createdAt = JStr stamp\<rparr>) EOrder 0 = []"
  by (simp add: validateDataTypes_def order_json_def get_def expectedProperties_def
      is_ws_def is_control_def str_def stamp_def testPlatform_def trim_def)

lemma flatDocument_integrity:
  "validateDataIntegrity testPlatform
     [\<lparr>fo_id = JStr (str ''order_1''), fo_name = JStr (str ''Order''), fo_createdAt = JStr stamp\<rparr>] []
   = \<lparr>isValid = True, errors = [], warnings = [],
      orphanedActivities = [],
      duplicateAnalysis = \<lparr>isValid = True, errors = [], warnings = [], orderIds = [],
                            activityIds = []\<rparr>,
      integrityScore = 100\<rparr>"
  by (simp add: validateDataIntegrity_def analyzeIdDuplicates_def noteOrderId_def
      analyzeRelationships_def analyzeNameDuplicates_def noteOrderName_def
      analyzeDataQuality_def trimRaises_def blank_def longName_def unusualDate_def
      calculateIntegrityScore_def enumerate_eq_zip Let_def
      is_ws_def str_def stamp_def testPlatform_def trim_def)

subsection \<open>Flat-form input\<close>

text \<open>The normalizer reads nothing of a document but its member \<open>orders\<close>.\<close>

lemma convertNestedToFlat_reads_orders_only:
  "get (JObj kvs) (str ''orders'') = get (JObj kvs') (str ''orders'')
   \<Longrightarrow> convertNestedToFlat P (JObj kvs) = convertNestedToFlat P (JObj kvs')"
  by (simp add: convertNestedToFlat_def)

text \<open>
  Claim C2 (the code departs from it). On a flat-form document the normalizer drops the
  top-level \<open>activities\<close> array: the flat result of \<open>flatDocument\<close> has no activity, and
  \<open>validateImportData\<close> accepts the document although its one activity points at an order
  that is not in the batch.
\<close>

theorem flat_form_activities_are_dropped:
  "convertNestedToFlat testPlatform flatDocument
     = Some \<lparr>fd_orders = [\<lparr>fo_id = JStr (str ''order_1''), fo_name = JStr (str ''Order''),
                              fo_createdAt = JStr stamp\<rparr>],
             fd_activities = []\<rparr>
   \<and> validateImportData testPlatform flatDocument
     = Some \<lparr>isValid = True, errors = [], warnings = [VersionMissing],
             flattenedData =
               Some \<lparr>fd_orders = [\<lparr>fo_id = JStr (str ''order_1''), fo_name = JStr (str ''Order''),
                                    fo_createdAt = JStr stamp\<rparr>],
                     fd_activities = []\<rparr>\<rparr>"
  by (simp add: validateImportData_def flatDocument_schema flatDocument_flat flatDocument_types
      flatDocument_integrity enumerate_eq_zip)

theorem flat_form_activities_are_dropped_witness:
  "map_option fd_activities (convertNestedToFlat testPlatform flatDocument) = Some []
   \<and> map_option isValid (validateImportData testPlatform flatDocument) = Some True"
  using flat_form_activities_are_dropped by simp

subsection \<open>Name length\<close>

text \<open>
  The two limits on a name: \<open>validateStringConstraints\<close> objects to more than 200 code
  units, \<open>validateName\<close> to a trimmed name of more than 100.
\<close>

lemma validateName_limit:
  "validateName (JStr s) = (s \<noteq> [] \<and> trim s \<noteq> [] \<and> length (trim s) \<le> 100)"
  by auto

lemma orderStringErrors_name_limit:
  "get order (str ''name'') = JStr s \<Longrightarrow>
     (NameTooLong EOrder index \<in> set (orderStringErrors P index order)) = (length s > 200)"
  by (auto simp add: orderStringErrors_def lengthError_def)

text \<open>
  Claim C3 (the code departs from it). An order whose name has exactly 200 code units
  passes \<open>validateStringConstraints\<close>, yet \<open>validateName\<close> refuses it, and
  \<open>validateImportData\<close> rejects the document with a name error at index 0.
\<close>

theorem name_of_200_is_rejected:
  "validateStringConstraints testPlatform longNameDocument = Some []
   \<and> validateName (JStr (replicate 200 97)) = False
   \<and> validateImportData testPlatform longNameDocument
     = Some \<lparr>isValid = False, errors = [NameInvalid EOrder 0],
             warnings = [VersionMissing, NameLong EOrder 0],
             flattenedData =
               Some \<lparr>fd_orders = [\<lparr>fo_id = JStr (str ''o1''), fo_name = JStr (replicate 200 97),
                                    fo_createdAt = JStr stamp\<rparr>],
                     fd_activities = []\<rparr>\<rparr>"
  by (simp add: validateImportData_def longName_schema longName_flat longName_types
      longName_integrity longName_constraints enumerate_eq_zip trim_replicate is_ws_def)

theorem name_of_200_is_rejected_witness:
  "map_option errors (validateImportData testPlatform longNameDocument)
     = Some [NameInvalid EOrder 0]"
  using name_of_200_is_rejected by simp

subsection \<open>Merge policy\<close>

text \<open>
  Where \<open>merge\<close> does leave the store alone: an update of a record with its own fields,
  and an update of an id the store does not hold.
\<close>

lemma update_first_found:
  "find p xs = Some e \<Longrightarrow> f e = e \<Longrightarrow> update_first p f xs = xs"
  by (induction xs) (auto split: if_splits)

lemma update_first_absent:
  "find p xs = None \<Longrightarrow> update_first p f xs = xs"
  by (induction xs) (auto split: if_splits)

lemma updateOrder_own_fields:
  assumes "find (\<lambda>order. o_id order = ident) (st_orders st) = Some existing"
  shows "updateOrder st ident (o_name existing, o_createdAt existing) = st"
proof -
  have "update_first (\<lambda>order. o_id order = ident)
          (\<lambda>order. order\<lparr>o_name := o_name existing, o_createdAt := o_createdAt existing\<rparr>)
          (st_orders st) = st_orders st"
    by (rule update_first_found [OF assms]) simp
  then show ?thesis by (simp add: updateOrder_def)
qed

lemma updateOrder_absent:
  "find (\<lambda>order. o_id order = ident) (st_orders st) = None \<Longrightarrow> updateOrder st ident updates = st"
  by (simp add: updateOrder_def update_first_absent)

lemma checkDuplicates_two:
  "checkDuplicates storeTwo batchTwo =
     \<lparr>hasDuplicates = True,
      duplicateOrders =
        [\<lparr>dup_import = \<lparr>o_id = str ''o1'', o_name = str ''Night'', o_createdAt = stamp\<rparr>,
          dup_existing = \<lparr>o_id = str ''x'', o_name = str ''Night'', o_createdAt = stampOld\<rparr>,
          dup_type = MatchName\<rparr>],
      duplicateActivities = []\<rparr>"
  by (simp add: checkDuplicates_def storeTwo_def batchTwo_def orderDuplicate_def str_def)

text \<open>
  Claim C1 (the code departs from it). The batch order \<open>o1\<close> is matched, by name, with
  the store's order \<open>x\<close>, which comes first; under \<open>merge\<close> the fields of \<open>x\<close> are then
  written into the store's order \<open>o1\<close>. The run counts one updated order, and the
  store's \<open>o1\<close> has lost its name \<open>Morning\<close> and its creation time.
\<close>

theorem merge_overwrites_through_name_match:
  "executeImport testPlatform NoSaveData storeTwo batchTwo (checkDuplicates storeTwo batchTwo)
     (JObj [(str ''duplicateHandling'', JStr (str ''merge''))])
   = (\<lparr>st_orders = [\<lparr>o_id = str ''x'', o_name = str ''Night'', o_createdAt = stampOld\<rparr>,
                    \<lparr>o_id = str ''o1'', o_name = str ''Night'', o_createdAt = stampOld\<rparr>],
       st_activities = []\<rparr>,
      \<lparr>success = True, newOrders = 0, newActivities = 0, skippedOrders = 0,
       skippedActivities = 0, updatedOrders = 1, updatedActivities = 0, outcome_errors = []\<rparr>)"
  unfolding checkDuplicates_two
  by (simp add: executeImport_def importOrders_def importActivities_def Let_def importOrder_def
      emptyResult_def get_singleton or_else_def policy_literals batchTwo_def storeTwo_def
      updateOrder_def str_def)

theorem merge_overwrites_through_name_match_witness:
  "map o_name (st_orders storeTwo) = [str ''Night'', str ''Morning'']
   \<and> map o_name (st_orders (fst (executeImport testPlatform NoSaveData storeTwo batchTwo
                                    (checkDuplicates storeTwo batchTwo)
                                    (JObj [(str ''duplicateHandling'', JStr (str ''merge''))]))))
       = [str ''Night'', str ''Night'']
   \<and> updatedOrders (snd (executeImport testPlatform NoSaveData storeTwo batchTwo
                            (checkDuplicates storeTwo batchTwo)
                            (JObj [(str ''duplicateHandling'', JStr (str ''merge''))]))) = 1"
  using merge_overwrites_through_name_match by (simp add: storeTwo_def)

subsection \<open>Flattening and re-nesting\<close>

text \<open>The \<open>Map\<close> of \<open>convertFlatToNested\<close> holds, per key, the activities with that orderId.\<close>

lemma groupActivity_apply:
  "groupActivity a m k =
     (if fa_orderId a = k
      then Some ((case m k of None \<Rightarrow> [] | Some xs \<Rightarrow> xs) @ [stripActivity a])
      else m k)"
  by (auto simp add: groupActivity_def)

lemma fold_groupActivity:
  "fold groupActivity acts m k =
     (if filter (\<lambda>a. fa_orderId a = k) acts = [] then m k
      else Some ((case m k of None \<Rightarrow> [] | Some xs \<Rightarrow> xs)
                 @ map stripActivity (filter (\<lambda>a. fa_orderId a = k) acts)))"
proof (induction acts arbitrary: m)
  case Nil
  then show ?case by simp
next
  case (Cons a acts)
  have step: "fold groupActivity (a # acts) m k =
     (if filter (\<lambda>a. fa_orderId a = k) acts = [] then groupActivity a m k
      else Some ((case groupActivity a m k of None \<Rightarrow> [] | Some xs \<Rightarrow> xs)
                 @ map stripActivity (filter (\<lambda>a. fa_orderId a = k) acts)))"
    by (simp only: fold_simps Cons.IH [of "groupActivity a m"])
  show ?case
    unfolding step by (simp add: groupActivity_apply)
qed

lemma grouped_activities:
  "(case fold groupActivity acts Map.empty k of None \<Rightarrow> [] | Some xs \<Rightarrow> xs)
     = map stripActivity (filter (\<lambda>a. fa_orderId a = k) acts)"
  by (simp add: fold_groupActivity)

lemma convertFlatToNested_filter:
  "convertFlatToNested flatData =
     map (\<lambda>order. \<lparr>no_id = fo_id order, no_name = fo_name order,
                     no_createdAt = fo_createdAt order,
                     no_activities = map stripActivity
                                       (filter (\<lambda>a. fa_orderId a = fo_id order)
                                               (fd_activities flatData))\<rparr>)
         (fd_orders flatData)"
  by (simp add: convertFlatToNested_def grouped_activities)

text \<open>
  What \<open>flattenOrder\<close> returns: nothing, or one order and activities that all carry its id.
\<close>

lemma flattenOrder_ownGroup: "ownGroup (flattenOrder P index order)"
proof -
  have "list_all (\<lambda>a. fa_orderId a = parent)
          (concat (map (\<lambda>(actIndex, activity). flattenActivity P parent index actIndex activity) xs))"
    for parent xs
    by (induction xs) (auto simp add: flattenActivity_def)
  then show ?thesis
    by (simp add: ownGroup_def flattenOrder_def Let_def)
qed

lemma nestGroup_simps:
  "nestGroup ([], acts) = []"
  "nestGroup (flatOrder # others, acts) =
     [\<lparr>no_id = fo_id flatOrder, no_name = fo_name flatOrder,
       no_createdAt = fo_createdAt flatOrder, no_activities = map stripActivity acts\<rparr>]"
  by (simp_all add: nestGroup_def)

lemma activities_point_at_orders:
  "list_all ownGroup rs \<Longrightarrow> a \<in> set (concat (map snd rs))
   \<Longrightarrow> fa_orderId a \<in> set (map fo_id (concat (map fst rs)))"
proof (induction rs)
  case Nil
  then show ?case by simp
next
  case (Cons r rs)
  obtain os acts where r: "r = (os, acts)" by (cases r)
  show ?case
  proof (cases "a \<in> set acts")
    case True
    with Cons.prems(1) r show ?thesis
      by (cases os) (auto simp add: ownGroup_def list_all_iff)
  next
    case False
    with Cons r show ?thesis by auto
  qed
qed

lemma regroup:
  assumes "list_all ownGroup rs" and "distinct (map fo_id (concat (map fst rs)))"
  shows "map (\<lambda>order. \<lparr>no_id = fo_id order, no_name = fo_name order,
                        no_createdAt = fo_createdAt order,
                        no_activities = map stripActivity
                                          (filter (\<lambda>a. fa_orderId a = fo_id order)
                                                  (concat (map snd rs)))\<rparr>)
             (concat (map fst rs))
         = concat (map nestGroup rs)"
  using assms
proof (induction rs)
  case Nil
  then show ?case by simp
next
  case (Cons r rs)
  obtain os acts where r: "r = (os, acts)" by (cases r)
  from Cons.prems have tail: "list_all ownGroup rs" by simp
  show ?case
  proof (cases os)
    case Nil
    with Cons r show ?thesis by (simp add: ownGroup_def nestGroup_simps)
  next
    case (Cons flatOrder others)
    with Cons.prems(1) r have others: "others = []"
      and own: "list_all (\<lambda>a. fa_orderId a = fo_id flatOrder) acts"
      by (simp_all add: ownGroup_def)
    from Cons.prems(2) r Cons others
    have fresh: "fo_id flatOrder \<notin> set (map fo_id (concat (map fst rs)))"
      and dist: "distinct (map fo_id (concat (map fst rs)))"
      by simp_all
    have mine: "filter (\<lambda>a. fa_orderId a = fo_id flatOrder) acts = acts"
      using own by (simp add: list_all_iff)
    have none_later: "filter (\<lambda>a. fa_orderId a = fo_id flatOrder) (concat (map snd rs)) = []"
      unfolding filter_empty_conv
    proof
      fix a
      assume "a \<in> set (concat (map snd rs))"
      from activities_point_at_orders [OF tail this] fresh
      show "fa_orderId a \<noteq> fo_id flatOrder" by auto
    qed
    have not_mine: "filter (\<lambda>a. fa_orderId a = fo_id order) acts = []"
      if "order \<in> set (concat (map fst rs))" for order
      using own fresh that by (auto simp add: filter_empty_conv list_all_iff)
    have later: "map (\<lambda>order. \<lparr>no_id = fo_id order, no_name = fo_name order,
                        no_createdAt = fo_createdAt order,
                        no_activities = map stripActivity
                                          (filter (\<lambda>a. fa_orderId a = fo_id order)
                                                  (acts @ concat (map snd rs)))\<rparr>)
             (concat (map fst rs))
         = concat (map nestGroup rs)"
    proof -
      have "map (\<lambda>order. \<lparr>no_id = fo_id order, no_name = fo_name order,
                        no_createdAt = fo_createdAt order,
                        no_activities = map stripActivity
                                          (filter (\<lambda>a. fa_orderId a = fo_id order)
                                                  (acts @ concat (map snd rs)))\<rparr>)
             (concat (map fst rs))
          = map (\<lambda>order. \<lparr>no_id = fo_id order, no_name = fo_name order,
                        no_createdAt = fo_createdAt order,
                        no_activities = map stripActivity
                                          (filter (\<lambda>a. fa_orderId a = fo_id order)
                                                  (concat (map snd rs)))\<rparr>)
             (concat (map fst rs))"
      proof (rule map_cong [OF refl])
        fix order
        assume "order \<in> set (concat (map fst rs))"
        from not_mine [OF this]
        show "\<lparr>no_id = fo_id order, no_name = fo_name order,
                no_createdAt = fo_createdAt order,
                no_activities = map stripActivity
                                  (filter (\<lambda>a. fa_orderId a = fo_id order)
                                          (acts @ concat (map snd rs)))\<rparr>
              = \<lparr>no_id = fo_id order, no_name = fo_name order,
                no_createdAt = fo_createdAt order,
                no_activities = map stripActivity
                                  (filter (\<lambda>a. fa_orderId a = fo_id order)
                                          (concat (map snd rs)))\<rparr>"
          by simp
      qed
      with Cons.IH [OF tail dist] show ?thesis by simp
    qed
    show ?thesis
      using later mine none_later r Cons others by (simp add: nestGroup_simps)
  qed
qed

text \<open>The normalizer's groups are the groups the document states.\<close>

lemma flattenActivity_stated:
  "map stripActivity (flattenActivity P parent index actIndex activity)
     = (if isRecord activity then [statedActivity P index (actIndex, activity)] else [])"
  by (simp add: flattenActivity_def stripActivity_def statedActivity_def isRecord_def or_else_def)

lemma flattenActivities_stated:
  "map stripActivity
     (concat (map (\<lambda>(actIndex, activity). flattenActivity P parent index actIndex activity) xs))
     = map (statedActivity P index) (filter (\<lambda>(actIndex, activity). isRecord activity) xs)"
proof (induction xs)
  case Nil
  then show ?case by simp
next
  case (Cons x xs)
  obtain actIndex activity where x: "x = (actIndex, activity)" by (cases x)
  from Cons.IH flattenActivity_stated [of P parent index actIndex activity] x
  show ?case by simp
qed

lemma nestGroup_flattenOrder:
  "nestGroup (flattenOrder P index order)
     = (if isRecord order then [statedOrder P (index, order)] else [])"
  by (simp add: flattenOrder_def Let_def nestGroup_simps statedOrder_def
      flattenActivities_stated isRecord_def or_else_def)

lemma nestGroups_stated:
  "concat (map nestGroup (map (\<lambda>(index, order). flattenOrder P index order) xs))
     = map (statedOrder P) (filter (\<lambda>(index, order). isRecord order) xs)"
proof (induction xs)
  case Nil
  then show ?case by simp
next
  case (Cons x xs)
  obtain index order where x: "x = (index, order)" by (cases x)
  from Cons.IH nestGroup_flattenOrder [of P index order] x
  show ?case by simp
qed

lemma convertNestedToFlat_groups:
  assumes "convertNestedToFlat P nestedData = Some flat"
  shows "\<exists>rs. list_all ownGroup rs \<and> fd_orders flat = concat (map fst rs)
              \<and> fd_activities flat = concat (map snd rs)
              \<and> originalGrouping P nestedData = concat (map nestGroup rs)"
proof -
  let ?rs = "map (\<lambda>(index, order). flattenOrder P index order)
                 (enumerate 0 (arrayMember nestedData (str ''orders'')))"
  have own: "list_all ownGroup ?rs"
    by (simp add: list_all_iff flattenOrder_ownGroup split: prod.splits)
  have grouping: "originalGrouping P nestedData = concat (map nestGroup ?rs)"
    unfolding nestGroups_stated by (simp add: originalGrouping_def)
  have "fd_orders flat = concat (map fst ?rs) \<and> fd_activities flat = concat (map snd ?rs)"
    using assms
    by (auto simp add: convertNestedToFlat_def arrayMember_def Let_def split: if_splits)
  with own grouping show ?thesis by blast
qed

text \<open>On a complete document nothing is left out and nothing is supplied.\<close>

lemma statedActivities_complete:
  "list_all completeRecord xs \<Longrightarrow>
     map (statedActivity P index)
         (filter (\<lambda>(actIndex, activity). isRecord activity) (enumerate n xs))
       = map documentActivity xs"
  by (induction xs arbitrary: n)
     (simp_all add: completeRecord_def statedActivity_def documentActivity_def)

lemma statedOrders_complete:
  "list_all (\<lambda>order. completeRecord order
                       \<and> list_all completeRecord (arrayMember order (str ''activities''))) xs \<Longrightarrow>
     map (statedOrder P) (filter (\<lambda>(index, order). isRecord order) (enumerate n xs))
       = map documentOrder xs"
  by (induction xs arbitrary: n)
     (simp_all add: completeRecord_def statedOrder_def documentOrder_def
        statedActivities_complete)

lemma originalGrouping_complete:
  "completeDocument nestedData \<Longrightarrow> originalGrouping P nestedData = documentGrouping nestedData"
  by (simp add: completeDocument_def originalGrouping_def documentGrouping_def
      statedOrders_complete)

lemma twin_flat:
  "convertNestedToFlat testPlatform twinDocument =
     Some \<lparr>fd_orders = [\<lparr>fo_id = JStr (str ''o1''), fo_name = JStr (str ''A''),
                          fo_createdAt = JStr stamp\<rparr>,
                         \<lparr>fo_id = JStr (str ''o1''), fo_name = JStr (str ''B''),
                          fo_createdAt = JStr stamp\<rparr>],
           fd_activities = [\<lparr>fa_id = JStr (str ''a1''), fa_name = JStr (str ''x''),
                              fa_orderId = JStr (str ''o1''), fa_createdAt = JStr stamp\<rparr>,
                             \<lparr>fa_id = JStr (str ''a2''), fa_name = JStr (str ''y''),
                              fa_orderId = JStr (str ''o1''), fa_createdAt = JStr stamp\<rparr>]\<rparr>"
  by (simp add: convertNestedToFlat_def flattenOrder_def flattenActivity_def arrayMember_def
      or_else_def twinDocument_def get_def Let_def enumerate_eq_zip str_def stamp_def)

lemma pair_flat:
  "convertNestedToFlat testPlatform pairDocument =
     Some \<lparr>fd_orders = [\<lparr>fo_id = JStr (str ''o1''), fo_name = JStr (str ''A''),
                          fo_createdAt = JStr stamp\<rparr>,
                         \<lparr>fo_id = JStr (str ''o2''), fo_name = JStr (str ''B''),
                          fo_createdAt = JStr stamp\<rparr>],
           fd_activities = [\<lparr>fa_id = JStr (str ''a1''), fa_name = JStr (str ''x''),
                              fa_orderId = JStr (str ''o1''), fa_createdAt = JStr stamp\<rparr>,
                             \<lparr>fa_id = JStr (str ''a2''), fa_name = JStr (str ''y''),
                              fa_orderId = JStr (str ''o2''), fa_createdAt = JStr stamp\<rparr>]\<rparr>"
  by (simp add: convertNestedToFlat_def flattenOrder_def flattenActivity_def arrayMember_def
      or_else_def pairDocument_def get_def Let_def enumerate_eq_zip str_def stamp_def)

lemma twin_grouping:
  "map (\<lambda>order. map na_id (no_activities order)) (documentGrouping twinDocument)
     = [[JStr (str ''a1'')], [JStr (str ''a2'')]]"
  by (simp add: documentGrouping_def documentOrder_def documentActivity_def arrayMember_def
      twinDocument_def get_def str_def)

lemma pair_grouping:
  "map (\<lambda>order. map na_id (no_activities order)) (documentGrouping pairDocument)
     = [[JStr (str ''a1'')], [JStr (str ''a2'')]]"
  by (simp add: documentGrouping_def documentOrder_def documentActivity_def arrayMember_def
      pairDocument_def get_def str_def)

lemma example_documents_complete:
  "completeDocument twinDocument" "completeDocument pairDocument"
  by (simp_all add: completeDocument_def completeRecord_def isRecord_def arrayMember_def
      twinDocument_def pairDocument_def get_def str_def stamp_def)

text \<open>
  Claim C9, as stated, fails: when two orders of a nested document share an id, re-nesting
  gives each of them the activities of both, while the document embeds one under each.
\<close>

theorem renest_merges_orders_sharing_an_id:
  "map_option (map (\<lambda>order. map na_id (no_activities order)) \<circ> convertFlatToNested)
     (convertNestedToFlat testPlatform twinDocument)
     = Some [[JStr (str ''a1''), JStr (str ''a2'')], [JStr (str ''a1''), JStr (str ''a2'')]]
   \<and> map (\<lambda>order. map na_id (no_activities order)) (documentGrouping twinDocument)
     = [[JStr (str ''a1'')], [JStr (str ''a2'')]]
   \<and> originalGrouping testPlatform twinDocument = documentGrouping twinDocument"
proof -
  have renested:
    "map_option (map (\<lambda>order. map na_id (no_activities order)) \<circ> convertFlatToNested)
       (convertNestedToFlat testPlatform twinDocument)
       = Some [[JStr (str ''a1''), JStr (str ''a2'')], [JStr (str ''a1''), JStr (str ''a2'')]]"
    unfolding twin_flat
    by (simp add: convertFlatToNested_filter stripActivity_def)
  show ?thesis
    by (rule conjI [OF renested
          conjI [OF twin_grouping originalGrouping_complete [OF example_documents_complete(1)]]])
qed

text \<open>
  Claim C9, amended. For every nested document whose flattened orders have pairwise
  distinct ids, flattening and re-nesting gives back the grouping the document states:
  the same orders in the same sequence, each with exactly the activities embedded under
  it, in their order. For a complete document this is the grouping as written in the
  document. (With pairwise distinct ids the \<open>Map\<close> of \<open>convertFlatToNested\<close> finds the same
  group whether it compares values or objects: an activity's \<open>orderId\<close> is the id of its
  order itself.)
\<close>

theorem renest_restores_grouping:
  assumes "convertNestedToFlat P nestedData = Some flat"
    and "distinct (map fo_id (fd_orders flat))"
  shows "convertFlatToNested flat = originalGrouping P nestedData
         \<and> (completeDocument nestedData
              \<longrightarrow> convertFlatToNested flat = documentGrouping nestedData)"
proof -
  from convertNestedToFlat_groups [OF assms(1)]
  obtain rs where rs: "list_all ownGroup rs" "fd_orders flat = concat (map fst rs)"
    "fd_activities flat = concat (map snd rs)"
    "originalGrouping P nestedData = concat (map nestGroup rs)"
    by blast
  from assms(2) rs(2) have "distinct (map fo_id (concat (map fst rs)))" by simp
  from regroup [OF rs(1) this] rs
  have "convertFlatToNested flat = originalGrouping P nestedData"
    by (simp add: convertFlatToNested_filter)
  then show ?thesis
    by (simp add: originalGrouping_complete)
qed

theorem renest_restores_grouping_witness:
  "map_option convertFlatToNested (convertNestedToFlat testPlatform pairDocument)
     = Some (documentGrouping pairDocument)
   \<and> map (\<lambda>order. map na_id (no_activities order)) (documentGrouping pairDocument)
     = [[JStr (str ''a1'')], [JStr (str ''a2'')]]"
proof -
  have d: "distinct (map fo_id (fd_orders
             \<lparr>fd_orders = [\<lparr>fo_id = JStr (str ''o1''), fo_name = JStr (str ''A''),
                            fo_createdAt = JStr stamp\<rparr>,
                           \<lparr>fo_id = JStr (str ''o2''), fo_name = JStr (str ''B''),
                            fo_createdAt = JStr stamp\<rparr>],
              fd_activities = [\<lparr>fa_id = JStr (str ''a1''), fa_name = JStr (str ''x''),
                                fa_orderId = JStr (str ''o1''), fa_createdAt = JStr stamp\<rparr>,
                               \<lparr>fa_id = JStr (str ''a2''), fa_name = JStr (str ''y''),
                                fa_orderId = JStr (str ''o2''), fa_createdAt = JStr stamp\<rparr>]\<rparr>))"
    by (simp add: str_def)
  show ?thesis
    using renest_restores_grouping [OF pair_flat d] example_documents_complete(2) pair_grouping
    by (simp add: pair_flat originalGrouping_complete)
qed

text \<open>
  An embedded activity that is an object with an id, a name and a timestamp keeps all three.
\<close>

lemma flattenActivity_complete:
  "truthy (get activity (str ''id'')) \<Longrightarrow> truthy (get activity (str ''name''))
   \<Longrightarrow> truthy (get activity (str ''createdAt'')) \<Longrightarrow> typeof_object activity \<Longrightarrow> truthy activity
   \<Longrightarrow> map stripActivity (flattenActivity P parent index actIndex activity)
       = [\<lparr>na_id = get activity (str ''id''), na_name = get activity (str ''name''),
            na_createdAt = get activity (str ''createdAt'')\<rparr>]"
  by (simp add: flattenActivity_def stripActivity_def or_else_def)

subsection \<open>Relationship analysis\<close>

lemma relationStep_orphans:
  "rel_orphanedActivities (relationStep ids x r) = rel_orphanedActivities r @ orphanEntry ids x"
  by (cases x) (simp add: relationStep_def orphanEntry_def)

lemma relationStep_isValid:
  "isValid (relationStep ids x r) = (isValid r \<and> orphanEntry ids x = [])"
  by (cases x) (simp add: relationStep_def orphanEntry_def)

lemma fold_relationStep_orphans:
  "rel_orphanedActivities (fold (relationStep ids) xs r)
     = rel_orphanedActivities r @ concat (map (orphanEntry ids) xs)"
  by (induction xs arbitrary: r) (simp_all add: relationStep_orphans)

lemma fold_relationStep_isValid:
  "isValid (fold (relationStep ids) xs r) = (isValid r \<and> concat (map (orphanEntry ids) xs) = [])"
  by (induction xs arbitrary: r) (auto simp add: relationStep_isValid)


lemma analyzeRelationships_isValid:
  "isValid (analyzeRelationships orders activities)
     = (rel_orphanedActivities (analyzeRelationships orders activities) = [])"
  by (simp add: analyzeRelationships_def Let_def fold_relationStep_orphans
      fold_relationStep_isValid)

lemma analyzeRelationships_errors:
  "errors (analyzeRelationships orders activities)
     = (if rel_orphanedActivities (analyzeRelationships orders activities) = [] then []
        else OrphanSummary (length (rel_orphanedActivities (analyzeRelationships orders activities)))
             # map (\<lambda>orphaned. OrphanDetail (orph_activityName orphaned)
                      (orph_activityId orphaned) (orph_missingOrderId orphaned))
                   (rel_orphanedActivities (analyzeRelationships orders activities)))"
  by (simp add: analyzeRelationships_def Let_def)



lemma validateDataIntegrity_orphans:
  "orphanedActivities (validateDataIntegrity P orders activities)
     = rel_orphanedActivities (analyzeRelationships orders activities)"
  by (simp add: validateDataIntegrity_def Let_def caught_def split: option.splits)

lemma validateDataIntegrity_duplicates:
  "duplicateAnalysis (validateDataIntegrity P orders activities)
     = analyzeIdDuplicates orders activities"
  by (simp add: validateDataIntegrity_def Let_def caught_def split: option.splits)


lemma analyzeIdDuplicates_isValid:
  "isValid (analyzeIdDuplicates orders activities)
     = (errors (analyzeIdDuplicates orders activities) = [])"
  "isValid (analyzeIdDuplicates orders activities)
     = (orderIds (analyzeIdDuplicates orders activities) = []
        \<and> activityIds (analyzeIdDuplicates orders activities) = [])"
  by (auto simp add: analyzeIdDuplicates_def Let_def)

text \<open>An integrity result without errors is valid, has no orphan and no duplicate id.\<close>

lemma validateDataIntegrity_no_errors:
  assumes "errors (validateDataIntegrity P orders activities) = []"
  shows "isValid (validateDataIntegrity P orders activities)
         \<and> orphanedActivities (validateDataIntegrity P orders activities) = []
         \<and> orderIds (duplicateAnalysis (validateDataIntegrity P orders activities)) = []
         \<and> activityIds (duplicateAnalysis (validateDataIntegrity P orders activities)) = []
         \<and> analyzeNameDuplicates P orders activities \<noteq> None
         \<and> analyzeDataQuality P orders activities \<noteq> None"
proof -
  have names: "analyzeNameDuplicates P orders activities \<noteq> None"
  proof
    assume "analyzeNameDuplicates P orders activities = None"
    with assms show False
      by (simp add: validateDataIntegrity_def Let_def caught_def)
  qed
  have quality: "analyzeDataQuality P orders activities \<noteq> None"
  proof
    assume "analyzeDataQuality P orders activities = None"
    with assms names show False
      by (auto simp add: validateDataIntegrity_def Let_def caught_def)
  qed
  from names quality assms
  have parts: "(\<not> isValid (analyzeIdDuplicates orders activities)
                  \<longrightarrow> errors (analyzeIdDuplicates orders activities) = [])
               \<and> (\<not> isValid (analyzeRelationships orders activities)
                  \<longrightarrow> errors (analyzeRelationships orders activities) = [])"
    by (auto simp add: validateDataIntegrity_def Let_def)
  from parts have dup: "isValid (analyzeIdDuplicates orders activities)"
    using analyzeIdDuplicates_isValid(1) [of orders activities] by blast
  from parts have rel: "isValid (analyzeRelationships orders activities)"
    using analyzeRelationships_isValid [of orders activities]
      analyzeRelationships_errors [of orders activities]
    by (auto split: if_splits)
  from names quality dup rel have "isValid (validateDataIntegrity P orders activities)"
    by (auto simp add: validateDataIntegrity_def Let_def)
  with names quality dup rel show ?thesis
    using analyzeIdDuplicates_isValid(2) [of orders activities]
      analyzeRelationships_isValid [of orders activities]
    by (simp add: validateDataIntegrity_orphans validateDataIntegrity_duplicates)
qed





lemma wordy_integrity:
  "validateDataIntegrity testPlatform [wordyOrder] []
   = \<lparr>isValid = True, errors = [], warnings = [NameLong EOrder 0],
      orphanedActivities = [],
      duplicateAnalysis = \<lparr>isValid = True, errors = [], warnings = [], orderIds = [],
                            activityIds = []\<rparr>,
      integrityScore = 98\<rparr>"
  by (simp add: validateDataIntegrity_def analyzeIdDuplicates_def noteOrderId_def
      analyzeRelationships_def analyzeNameDuplicates_def noteOrderName_def
      analyzeDataQuality_def trimRaises_def blank_def longName_def unusualDate_def
      calculateIntegrityScore_def enumerate_eq_zip Let_def wordyOrder_def
      trim_replicate is_ws_def str_def stamp_def testPlatform_def trim_def)

lemma wordy_schema:
  "validateJSONSchema testPlatform wordyDocument
     = \<lparr>isValid = True, errors = [], warnings = [VersionMissing]\<rparr>"
  by (simp add: validateJSONSchema_def validateRootStructure_def validateRequiredProperties_def
      validateSchemaDataTypes_def validateNestedOrderSchemaTypes_def requiredFieldErrors_def
      validateSchemaConstraints_def validateStringConstraints_def orderStringErrors_def
      lengthError_def countCheck_def arrayMember_def validateSchemaVersion_def
      generatePerformanceWarnings_def estimateMemoryUsage_def estimateProcessingTime_def
      elementCount_def wordyDocument_def get_def has_key_def testPlatform_def Let_def
      enumerate_eq_zip str_def)

lemma wordy_flat:
  "convertNestedToFlat testPlatform wordyDocument
     = Some \<lparr>fd_orders = [wordyOrder], fd_activities = []\<rparr>"
  by (simp add: convertNestedToFlat_def flattenOrder_def arrayMember_def or_else_def
      wordyDocument_def wordyOrder_def get_def Let_def enumerate_eq_zip str_def stamp_def)

lemma wordy_types:
  "validateDataTypes testPlatform (order_json wordyOrder) EOrder 0 = []"
  by (simp add: validateDataTypes_def order_json_def get_def expectedProperties_def wordyOrder_def
      trim_replicate is_ws_def is_control_def str_def stamp_def testPlatform_def trim_def)

lemma wordy_import:
  "validateImportData testPlatform wordyDocument
     = Some \<lparr>isValid = True, errors = [], warnings = [VersionMissing, NameLong EOrder 0],
             flattenedData = Some \<lparr>fd_orders = [wordyOrder], fd_activities = []\<rparr>\<rparr>"
  by (simp add: validateImportData_def wordy_schema wordy_flat wordy_types wordy_integrity
      enumerate_eq_zip)

text \<open>The counts of the relationship analysis.\<close>

lemma relationStep_invalid:
  "invalidRelationships (relationStep ids x r)
     = invalidRelationships r
       + (if \<not> truthy (fa_orderId (snd x)) \<or> fa_orderId (snd x) \<notin> ids then 1 else 0)"
  by (simp add: relationStep_def split_def)

lemma relationStep_valid:
  "validRelationships (relationStep ids x r)
     = validRelationships r
       + (if truthy (fa_orderId (snd x)) \<and> fa_orderId (snd x) \<in> ids then 1 else 0)"
  by (simp add: relationStep_def split_def)

lemma fold_relationStep_invalid:
  "invalidRelationships (fold (relationStep ids) xs r)
     = invalidRelationships r
       + length (filter (\<lambda>a. \<not> truthy (fa_orderId a) \<or> fa_orderId a \<notin> ids) (map snd xs))"
  by (induction xs arbitrary: r) (simp_all add: relationStep_invalid)

lemma fold_relationStep_valid:
  "validRelationships (fold (relationStep ids) xs r)
     = validRelationships r
       + length (filter (\<lambda>a. truthy (fa_orderId a) \<and> fa_orderId a \<in> ids) (map snd xs))"
  by (induction xs arbitrary: r) (simp_all add: relationStep_valid)

lemma analyzeRelationships_counts:
  "invalidRelationships (analyzeRelationships orders activities)
     = length (filter (\<lambda>a. \<not> truthy (fa_orderId a) \<or> fa_orderId a \<notin> set (map fo_id orders))
                      activities)"
  "validRelationships (analyzeRelationships orders activities)
     = length (filter (\<lambda>a. truthy (fa_orderId a) \<and> fa_orderId a \<in> set (map fo_id orders))
                      activities)"
  by (simp_all add: analyzeRelationships_def Let_def fold_relationStep_invalid
      fold_relationStep_valid)



lemma linked_integrity:
  "validateDataIntegrity testPlatform [plainOrder] [linkedActivity]
   = \<lparr>isValid = True, errors = [], warnings = [],
      orphanedActivities = [],
      duplicateAnalysis = \<lparr>isValid = True, errors = [], warnings = [], orderIds = [],
                            activityIds = []\<rparr>,
      integrityScore = 100\<rparr>"
  by (simp add: validateDataIntegrity_def analyzeIdDuplicates_def noteOrderId_def
      noteActivityId_def analyzeRelationships_def relationStep_def analyzeNameDuplicates_def
      noteOrderName_def noteActivityName_def
      analyzeDataQuality_def trimRaises_def blank_def longName_def unusualDate_def
      calculateIntegrityScore_def enumerate_eq_zip Let_def plainOrder_def linkedActivity_def
      is_ws_def str_def stamp_def testPlatform_def trim_def)

lemma wordy_linked_integrity:
  "validateDataIntegrity testPlatform [wordyOrder] [linkedActivity]
   = \<lparr>isValid = True, errors = [], warnings = [NameLong EOrder 0],
      orphanedActivities = [],
      duplicateAnalysis = \<lparr>isValid = True, errors = [], warnings = [], orderIds = [],
                            activityIds = []\<rparr>,
      integrityScore = 98\<rparr>"
  by (simp add: validateDataIntegrity_def analyzeIdDuplicates_def noteOrderId_def
      noteActivityId_def analyzeRelationships_def relationStep_def analyzeNameDuplicates_def
      noteOrderName_def noteActivityName_def
      analyzeDataQuality_def trimRaises_def blank_def longName_def unusualDate_def
      calculateIntegrityScore_def enumerate_eq_zip Let_def wordyOrder_def linkedActivity_def
      trim_replicate is_ws_def str_def stamp_def testPlatform_def trim_def)




subsection \<open>Score of a batch without errors\<close>

text \<open>
  Claim C5, as stated, fails: a batch that validates without any error and has no
  relationship violation, but whose order name is longer than 50 code units, gets the
  score 98.
\<close>

theorem clean_batch_with_warning_scores_98:
  "map_option isValid (validateImportData testPlatform wordyDocument) = Some True
   \<and> map_option errors (validateImportData testPlatform wordyDocument) = Some []
   \<and> map_option flattenedData (validateImportData testPlatform wordyDocument)
       = Some (Some \<lparr>fd_orders = [wordyOrder], fd_activities = []\<rparr>)
   \<and> isValid (validateDataIntegrity testPlatform [wordyOrder] [])
   \<and> errors (validateDataIntegrity testPlatform [wordyOrder] []) = []
   \<and> orphanedActivities (validateDataIntegrity testPlatform [wordyOrder] []) = []
   \<and> integrityScore (validateDataIntegrity testPlatform [wordyOrder] []) = 98"
  by (simp add: wordy_import wordy_integrity)

text \<open>
  Claim C5, amended. For every batch whose integrity result has no error and which has no
  relationship violation (every activity has a non-empty \<open>orderId\<close>, a string or another
  value that is neither an array nor an object, and it is the id of an order of the
  batch), the result is valid, has no orphaned activity and no duplicate id, the
  relationship analysis counts no invalid relationship, and the score is 100 minus 2 per
  warning, not below 0; it is 100 exactly when there is no warning.
\<close>

theorem clean_batch_score:
  assumes "errors (validateDataIntegrity P orders activities) = []"
    and "list_all (\<lambda>activity. is_primitive (fa_orderId activity) \<and> truthy (fa_orderId activity)
                                \<and> fa_orderId activity \<in> set (map fo_id orders))
                  activities"
  shows "isValid (validateDataIntegrity P orders activities)
         \<and> orphanedActivities (validateDataIntegrity P orders activities) = []
         \<and> orderIds (duplicateAnalysis (validateDataIntegrity P orders activities)) = []
         \<and> activityIds (duplicateAnalysis (validateDataIntegrity P orders activities)) = []
         \<and> invalidRelationships (analyzeRelationships orders activities) = 0
         \<and> validRelationships (analyzeRelationships orders activities) = length activities
         \<and> integrityScore (validateDataIntegrity P orders activities)
             = max 0 (100 - 2 * int (length (warnings (validateDataIntegrity P orders activities))))
         \<and> (integrityScore (validateDataIntegrity P orders activities) = 100)
             = (warnings (validateDataIntegrity P orders activities) = [])"
proof -
  note clean = validateDataIntegrity_no_errors [OF assms(1)]
  from clean have "integrityScore (validateDataIntegrity P orders activities)
                     = calculateIntegrityScore (validateDataIntegrity P orders activities)"
    by (auto simp add: validateDataIntegrity_score_cases [of P orders activities])
  with clean assms(1)
  have score: "integrityScore (validateDataIntegrity P orders activities)
                 = max 0 (100 - 2 * int (length (warnings (validateDataIntegrity P orders activities))))"
    by (simp add: calculateIntegrityScore_def Let_def)
  have full: "(max 0 (100 - 2 * int (length ws)) = 100) = (ws = [])" for ws :: "vwarning list"
    by (cases ws) (simp_all add: max_def)
  from score have top: "(integrityScore (validateDataIntegrity P orders activities) = 100)
                     = (warnings (validateDataIntegrity P orders activities) = [])"
    by (simp add: full)
  from assms(2)
  have none: "filter (\<lambda>activity. \<not> truthy (fa_orderId activity)
                                   \<or> fa_orderId activity \<notin> set (map fo_id orders)) activities = []"
    and every: "filter (\<lambda>activity. truthy (fa_orderId activity)
                                    \<and> fa_orderId activity \<in> set (map fo_id orders)) activities
                = activities"
    by (auto simp add: list_all_iff filter_empty_conv filter_id_conv)
  have links: "invalidRelationships (analyzeRelationships orders activities) = 0
               \<and> validRelationships (analyzeRelationships orders activities) = length activities"
    unfolding analyzeRelationships_counts none every by simp
  from clean score top links show ?thesis by simp
qed

theorem clean_batch_score_witness:
  "isValid (validateDataIntegrity testPlatform [wordyOrder] [linkedActivity])
   \<and> integrityScore (validateDataIntegrity testPlatform [wordyOrder] [linkedActivity]) = 98
   \<and> integrityScore (validateDataIntegrity testPlatform [plainOrder] [linkedActivity]) = 100
   \<and> invalidRelationships (analyzeRelationships [plainOrder] [linkedActivity]) = 0"
proof -
  have linked: "list_all (\<lambda>activity. is_primitive (fa_orderId activity)
                                       \<and> truthy (fa_orderId activity)
                                       \<and> fa_orderId activity \<in> set (map fo_id [wordyOrder]))
                  [linkedActivity]"
    "list_all (\<lambda>activity. is_primitive (fa_orderId activity) \<and> truthy (fa_orderId activity)
                           \<and> fa_orderId activity \<in> set (map fo_id [plainOrder]))
       [linkedActivity]"
    by (simp_all add: linkedActivity_def wordyOrder_def plainOrder_def str_def)
  have clean: "errors (validateDataIntegrity testPlatform [wordyOrder] [linkedActivity]) = []"
    "errors (validateDataIntegrity testPlatform [plainOrder] [linkedActivity]) = []"
    by (simp_all add: wordy_linked_integrity linked_integrity)
  show ?thesis
    using clean_batch_score [OF clean(1) linked(1)] clean_batch_score [OF clean(2) linked(2)]
    by (simp add: wordy_linked_integrity linked_integrity)
qed

end
